theory Spec2Isabelle
  imports Main
begin

section \<open>Strings\<close>

text \<open>
  Model, field and operation names are Prisma identifiers, that is ASCII letters, digits
  and underscores. On such strings JavaScript's \<^verbatim>\<open>toLowerCase\<close> and
  \<^verbatim>\<open>toUpperCase\<close> act letter by letter on \<^verbatim>\<open>A..Z\<close> and \<^verbatim>\<open>a..z\<close>
  and leave every other character alone.
\<close>

definition upperLetters :: string where
  "upperLetters = ''ABCDEFGHIJKLMNOPQRSTUVWXYZ''"

definition lowerLetters :: string where
  "lowerLetters = ''abcdefghijklmnopqrstuvwxyz''"

definition lowerChar :: "char \<Rightarrow> char" where
  "lowerChar c = (case map_of (zip upperLetters lowerLetters) c of Some l \<Rightarrow> l | None \<Rightarrow> c)"

definition upperChar :: "char \<Rightarrow> char" where
  "upperChar c = (case map_of (zip lowerLetters upperLetters) c of Some u \<Rightarrow> u | None \<Rightarrow> c)"

definition toLowerCase :: "string \<Rightarrow> string" where
  "toLowerCase s = map lowerChar s"

definition toUpperCase :: "string \<Rightarrow> string" where
  "toUpperCase s = map upperChar s"

text \<open>\<^verbatim>\<open>s.charAt(0)\<close> is the empty string on the empty string; \<^verbatim>\<open>s.slice(1)\<close> drops one character.\<close>

definition charAt0 :: "string \<Rightarrow> string" where
  "charAt0 s = take 1 s"

definition slice1 :: "string \<Rightarrow> string" where
  "slice1 s = drop 1 s"

text \<open>\<^verbatim>\<open>s.replace(pat, rep)\<close> with a string pattern replaces the first occurrence only.\<close>

fun replaceFirst :: "string \<Rightarrow> string \<Rightarrow> string \<Rightarrow> string" where
  "replaceFirst pat rep [] = (if pat = [] then rep else [])"
| "replaceFirst pat rep (c # cs) =
     (if take (length pat) (c # cs) = pat then rep @ drop (length pat) (c # cs)
      else c # replaceFirst pat rep cs)"

text \<open>
  A lookup table written as an object literal, with the \<^verbatim>\<open>table[k] || k\<close> fallback
  (for keys that are operation names, not properties every object inherits).
\<close>

definition lookupOr :: "(string \<times> string) list \<Rightarrow> string \<Rightarrow> string" where
  "lookupOr table k = (case map_of table k of Some v \<Rightarrow> (if v = [] then k else v) | None \<Rightarrow> k)"

section \<open>Configuration and schema model\<close>

text \<open>
  The fields of \<^verbatim>\<open>Config\<close> that the generators below read. The two default rules are
  kept as strings, since the shield generator compares them with string literals and has a
  branch for every other value.
\<close>

record config =
  showModelNameInProcedure :: bool
  generateModelActions :: "string list"
  defaultReadRule :: string
  defaultWriteRule :: string
  enableSoftDeletes :: bool
  wrapResponses :: bool

text \<open>\<^verbatim>\<open>CodeGenField\<close> and \<^verbatim>\<open>CodeGenModel\<close> of code-generation-utils.\<close>

record prisma_field =
  fieldName :: string
  fieldType :: string
  isId :: bool
  isList :: bool

record prisma_model =
  modelName :: string
  modelFields :: "prisma_field list"

section \<open>Procedure names (CodeGenerator)\<close>

definition operationMap :: "(string \<times> string) list" where
  "operationMap =
    [(''create'', ''create''), (''createMany'', ''createMany''), (''findFirst'', ''findFirst''),
     (''findMany'', ''findMany''), (''findUnique'', ''findById''), (''update'', ''update''),
     (''updateMany'', ''updateMany''), (''upsert'', ''upsert''), (''delete'', ''delete''),
     (''deleteMany'', ''deleteMany''), (''count'', ''count''), (''aggregate'', ''aggregate''),
     (''groupBy'', ''groupBy'')]"

definition getProcedureName :: "config \<Rightarrow> string \<Rightarrow> string \<Rightarrow> string" where
  "getProcedureName cfg baseOp mName =
     (let prefix = (if showModelNameInProcedure cfg then toLowerCase mName else []);
          operation = lookupOr operationMap baseOp
      in if prefix \<noteq> [] then prefix @ toUpperCase (charAt0 operation) @ slice1 operation
         else operation)"

text \<open>\<^verbatim>\<open>shouldGenerateOperation\<close> of operation-utils: membership in the configured allow-list.\<close>

definition shouldGenerateOperation :: "string \<Rightarrow> config \<Rightarrow> bool" where
  "shouldGenerateOperation opT cfg = (opT \<in> set (generateModelActions cfg))"

text \<open>
  One generated procedure. \<^verbatim>\<open>generateSingleProcedure\<close> hands these values to the
  template that prints the procedure; the record keeps the values and leaves the printing out.
\<close>

record proc =
  procName :: string
  operationName :: string
  opType :: string
  baseOpType :: string
  routePath :: string

definition generateSingleProcedure ::
  "config \<Rightarrow> string \<Rightarrow> string \<Rightarrow> string \<Rightarrow> string \<Rightarrow> proc" where
  "generateSingleProcedure cfg mName opName opT baseOp =
     \<lparr>procName = getProcedureName cfg baseOp mName,
      operationName = opName,
      opType = opT,
      baseOpType = baseOp,
      routePath = ''/'' @ toLowerCase mName @ ''/'' @ lookupOr operationMap baseOp\<rparr>"

definition essentialOperations :: "string list" where
  "essentialOperations =
     [''create'', ''findMany'', ''findUnique'', ''update'', ''delete'', ''count'']"

text \<open>
  An entry of \<^verbatim>\<open>modelOperations\<close> is an object whose \<^verbatim>\<open>model\<close> key holds the model
  name and whose other keys map an operation type to an operation name; it is kept as the
  list of its entries, in the order \<^verbatim>\<open>Object.entries\<close> yields them.
\<close>

type_synonym operations = "(string \<times> string) list"

definition findOperations :: "operations list \<Rightarrow> string \<Rightarrow> operations option" where
  "findOperations modelOperations mName =
     find (\<lambda>ops. map_of ops ''model'' = Some mName) modelOperations"

text \<open>The first loop of \<^verbatim>\<open>generateModelProcedures\<close>, over the entries of the mapping.\<close>

fun mappedLoop ::
  "config \<Rightarrow> string \<Rightarrow> operations \<Rightarrow> proc list \<times> string list \<Rightarrow> proc list \<times> string list" where
  "mappedLoop cfg mName [] acc = acc"
| "mappedLoop cfg mName ((opT, opName) # rest) (procedures, generatedOperations) =
     (if opT = ''model'' then mappedLoop cfg mName rest (procedures, generatedOperations)
      else let baseOp = replaceFirst ''OrThrow'' [] opT in
        if baseOp \<in> set generatedOperations
        then mappedLoop cfg mName rest (procedures, generatedOperations)
        else if shouldGenerateOperation baseOp cfg
        then mappedLoop cfg mName rest
               (procedures @ [generateSingleProcedure cfg mName opName opT baseOp],
                generatedOperations @ [baseOp])
        else mappedLoop cfg mName rest (procedures, generatedOperations))"

text \<open>The second loop, over the essential operations.\<close>

fun essentialLoop ::
  "config \<Rightarrow> string \<Rightarrow> string list \<Rightarrow> proc list \<times> string list \<Rightarrow> proc list \<times> string list" where
  "essentialLoop cfg mName [] acc = acc"
| "essentialLoop cfg mName (essentialOp # rest) (procedures, generatedOperations) =
     (if essentialOp \<notin> set generatedOperations \<and> shouldGenerateOperation essentialOp cfg
      then essentialLoop cfg mName rest
             (procedures @ [generateSingleProcedure cfg mName essentialOp essentialOp essentialOp],
              generatedOperations @ [essentialOp])
      else essentialLoop cfg mName rest (procedures, generatedOperations))"

definition generateModelProcedures :: "config \<Rightarrow> prisma_model \<Rightarrow> operations list \<Rightarrow> proc list" where
  "generateModelProcedures cfg m modelOperations =
     (case findOperations modelOperations (modelName m) of
        None \<Rightarrow> []
      | Some ops \<Rightarrow>
          fst (essentialLoop cfg (modelName m) essentialOperations
                 (mappedLoop cfg (modelName m) ops ([], []))))"

section \<open>Authorization rules (ShieldGenerator)\<close>

datatype shield_rule = IsAuthenticated | Deny | Allow | IsAdmin

definition toLowerCamelCase :: "string \<Rightarrow> string" where
  "toLowerCamelCase name = (if name \<noteq> [] then toLowerCase (charAt0 name) @ slice1 name else name)"

definition isWriteOperation :: "string \<Rightarrow> bool" where
  "isWriteOperation operation =
     (operation \<in> set [''create'', ''createMany'', ''update'', ''updateMany'', ''upsert'',
                       ''delete'', ''deleteMany''])"

definition operationMappings :: "(string \<times> string) list" where
  "operationMappings =
    [(''findMany'', ''list''), (''findUnique'', ''findById''), (''findFirst'', ''findFirst''),
     (''create'', ''create''), (''createMany'', ''createMany''), (''update'', ''update''),
     (''updateMany'', ''updateMany''), (''upsert'', ''upsert''), (''delete'', ''delete''),
     (''deleteMany'', ''deleteMany''), (''count'', ''count''), (''aggregate'', ''aggregate''),
     (''groupBy'', ''groupBy'')]"

text \<open>
  \<^verbatim>\<open>generateRulesForModel\<close> prints two constants, \<^verbatim>\<open>canRead<Model>\<close> and
  \<^verbatim>\<open>canWrite<Model>\<close>; the result lists each constant with the rule it is bound to.
\<close>

definition generateRulesForModel :: "config \<Rightarrow> prisma_model \<Rightarrow> (string \<times> shield_rule) list" where
  "generateRulesForModel cfg m =
     [(''canRead'' @ modelName m,
         (if defaultReadRule cfg = ''auth'' then IsAuthenticated
          else if defaultReadRule cfg = ''deny'' then Deny
          else if defaultReadRule cfg = ''allow'' then Allow
          else Deny)),
      (''canWrite'' @ modelName m,
         (if defaultWriteRule cfg = ''auth'' then IsAuthenticated
          else if defaultWriteRule cfg = ''deny'' then Deny
          else if defaultWriteRule cfg = ''allow'' then Allow
          else Deny))]"

text \<open>
  The earlier version of the same method, kept in the repository beside the current one:
  reads fall back to \<^verbatim>\<open>allow\<close>, writes know \<^verbatim>\<open>auth\<close> and \<^verbatim>\<open>admin\<close>.
\<close>

definition generateRulesForModel_older :: "config \<Rightarrow> prisma_model \<Rightarrow> (string \<times> shield_rule) list" where
  "generateRulesForModel_older cfg m =
     [(''canRead'' @ modelName m,
         (if defaultReadRule cfg = ''auth'' then IsAuthenticated
          else if defaultReadRule cfg = ''deny'' then Deny
          else Allow)),
      (''canWrite'' @ modelName m,
         (if defaultWriteRule cfg = ''auth'' then IsAuthenticated
          else if defaultWriteRule cfg = ''admin'' then IsAdmin
          else Deny))]"

text \<open>
  \<^verbatim>\<open>generateModelShieldConfig\<close>: the key of the model in the shield tree, and under it
  one entry per row of \<^verbatim>\<open>operationMappings\<close>, bound to one of the two constants.
\<close>

definition generateModelShieldConfig :: "prisma_model \<Rightarrow> string \<times> (string \<times> string) list" where
  "generateModelShieldConfig m =
     (toLowerCamelCase (modelName m),
      map (\<lambda>(prismaOp, shieldOp).
             (shieldOp, if isWriteOperation prismaOp then ''canWrite'' @ modelName m
                        else ''canRead'' @ modelName m))
          operationMappings)"

text \<open>The rule a key of the generated table denotes once the constants are resolved.\<close>

definition shieldRuleOf :: "config \<Rightarrow> prisma_model \<Rightarrow> string \<Rightarrow> shield_rule option" where
  "shieldRuleOf cfg m shieldOp =
     (case map_of (snd (generateModelShieldConfig m)) shieldOp of
        None \<Rightarrow> None
      | Some const \<Rightarrow> map_of (generateRulesForModel cfg m) const)"

definition shieldKeys :: "prisma_model \<Rightarrow> string list" where
  "shieldKeys m = map fst (snd (generateModelShieldConfig m))"

definition procedureNames :: "config \<Rightarrow> prisma_model \<Rightarrow> operations list \<Rightarrow> string list" where
  "procedureNames cfg m modelOperations = map procName (generateModelProcedures cfg m modelOperations)"


section \<open>Values of the generated code\<close>

text \<open>
  The generated handlers and the generated error mapper are JavaScript; their inputs,
  the arguments they pass to the Prisma client and the results they return are JavaScript
  values. Numbers are kept as integers (the pagination arguments are integers), dates as
  milliseconds since the epoch, objects as the list of their own properties in insertion
  order.
\<close>

datatype json =
    JUndefined
  | JNull
  | JBool bool
  | JNum int
  | JStr string
  | JDate int
  | JArr "json list"
  | JObj "(string \<times> json) list"

text \<open>
  What a handler or the mapper throws: an \<^verbatim>\<open>ORPCError\<close> with its code and data, a
  TypeError, or any value thrown again. \<^verbatim>\<open>OutOfModel\<close> stands for the JavaScript
  coercions that are not followed here (spreading a string or an array into an object,
  \<^verbatim>\<open>Math.min\<close> on a non-number, adding a named property to an array or a date).
\<close>

datatype thrown =
    ORPCError string json
  | TypeError
  | Thrown json
  | OutOfModel

fun truthy :: "json \<Rightarrow> bool" where
  "truthy JUndefined = False"
| "truthy JNull = False"
| "truthy (JBool b) = b"
| "truthy (JNum n) = (n \<noteq> 0)"
| "truthy (JStr s) = (s \<noteq> [])"
| "truthy (JDate t) = True"
| "truthy (JArr xs) = True"
| "truthy (JObj kvs) = True"

fun nullish :: "json \<Rightarrow> bool" where
  "nullish JUndefined = True"
| "nullish JNull = True"
| "nullish v = False"

text \<open>
  \<^verbatim>\<open>x?.k\<close> for the property names the generated code uses (identifiers, never array
  indices): undefined on \<^verbatim>\<open>null\<close> and \<^verbatim>\<open>undefined\<close>, the property otherwise.
\<close>

fun optProp :: "json \<Rightarrow> string \<Rightarrow> json" where
  "optProp (JObj kvs) k = (case map_of kvs k of Some v \<Rightarrow> v | None \<Rightarrow> JUndefined)"
| "optProp (JArr xs) k = (if k = ''length'' then JNum (int (length xs)) else JUndefined)"
| "optProp (JStr s) k = (if k = ''length'' then JNum (int (length s)) else JUndefined)"
| "optProp v k = JUndefined"

text \<open>\<^verbatim>\<open>x.k\<close> throws a TypeError on \<^verbatim>\<open>null\<close> and \<^verbatim>\<open>undefined\<close>.\<close>

definition getProp :: "json \<Rightarrow> string \<Rightarrow> thrown + json" where
  "getProp x k = (if nullish x then Inl TypeError else Inr (optProp x k))"

text \<open>\<^verbatim>\<open>o[k] = v\<close> on the property list: in place when the key exists, appended otherwise.\<close>

fun setKey :: "(string \<times> json) list \<Rightarrow> string \<Rightarrow> json \<Rightarrow> (string \<times> json) list" where
  "setKey [] k v = [(k, v)]"
| "setKey ((k', v') # kvs) k v = (if k' = k then (k, v) # kvs else (k', v') # setKey kvs k v)"

text \<open>
  \<^verbatim>\<open>x.k = v\<close> in a module (strict mode): a TypeError on a primitive, a new property on
  an object.
\<close>

fun setProp :: "json \<Rightarrow> string \<Rightarrow> json \<Rightarrow> thrown + json" where
  "setProp (JObj kvs) k v = Inr (JObj (setKey kvs k v))"
| "setProp (JArr xs) k v = Inl OutOfModel"
| "setProp (JDate t) k v = Inl OutOfModel"
| "setProp x k v = Inl TypeError"

text \<open>\<^verbatim>\<open>{ ...x }\<close>: the own enumerable properties of \<^verbatim>\<open>x\<close>, none for a primitive.\<close>

fun spread :: "json \<Rightarrow> thrown + (string \<times> json) list" where
  "spread (JObj kvs) = Inr kvs"
| "spread (JStr s) = (if s = [] then Inr [] else Inl OutOfModel)"
| "spread (JArr xs) = (if xs = [] then Inr [] else Inl OutOfModel)"
| "spread v = Inr []"

fun mathMin :: "json \<Rightarrow> int \<Rightarrow> thrown + json" where
  "mathMin (JNum n) k = Inr (JNum (min n k))"
| "mathMin v k = Inl OutOfModel"

definition mapResult :: "('a \<Rightarrow> 'b) \<Rightarrow> thrown + 'a \<Rightarrow> thrown + 'b" where
  "mapResult f r = (case r of Inl e \<Rightarrow> Inl e | Inr a \<Rightarrow> Inr (f a))"

section \<open>Model utilities\<close>

text \<open>The test \<^verbatim>\<open>generateHandlerCode\<close> makes: some field is named \<^verbatim>\<open>deletedAt\<close>.\<close>

definition hasDeletedAt :: "prisma_model \<Rightarrow> bool" where
  "hasDeletedAt m = list_ex (\<lambda>f. fieldName f = ''deletedAt'') (modelFields m)"

text \<open>\<^verbatim>\<open>hasSoftDeleteField\<close> of model-utils: the field is also a \<^verbatim>\<open>DateTime\<close>.\<close>

definition hasSoftDeleteField :: "prisma_model \<Rightarrow> bool" where
  "hasSoftDeleteField m =
     list_ex (\<lambda>f. fieldName f = ''deletedAt'' \<and> fieldType f = ''DateTime'') (modelFields m)"

record aggregations =
  hasNumericFields :: bool
  hasComparableFields :: bool
  supportsSum :: bool
  supportsAvg :: bool
  supportsMin :: bool
  supportsMax :: bool
  supportsCount :: bool

definition numericTypes :: "string list" where
  "numericTypes = [''Int'', ''Float'', ''Decimal'', ''BigInt'']"

definition comparableTypes :: "string list" where
  "comparableTypes = numericTypes @ [''DateTime'', ''String'']"

definition getAvailableAggregations :: "prisma_model \<Rightarrow> aggregations" where
  "getAvailableAggregations m =
     (let numericFields = filter (\<lambda>f. fieldType f \<in> set numericTypes \<and> \<not> isList f) (modelFields m);
          comparableFields = filter (\<lambda>f. fieldType f \<in> set comparableTypes \<and> \<not> isList f) (modelFields m)
      in \<lparr>hasNumericFields = length numericFields > 0,
          hasComparableFields = length comparableFields > 0,
          supportsSum = length numericFields > 0,
          supportsAvg = length numericFields > 0,
          supportsMin = length comparableFields > 0,
          supportsMax = length comparableFields > 0,
          supportsCount = True\<rparr>)"

definition methodMap :: "(string \<times> string) list" where
  "methodMap =
    [(''create'', ''create''), (''createMany'', ''createMany''), (''findFirst'', ''findFirst''),
     (''findMany'', ''findMany''), (''findUnique'', ''findUnique''), (''update'', ''update''),
     (''updateMany'', ''updateMany''), (''upsert'', ''upsert''), (''delete'', ''delete''),
     (''deleteMany'', ''deleteMany''), (''count'', ''count''), (''aggregate'', ''aggregate''),
     (''groupBy'', ''groupBy'')]"

definition getPrismaMethodName :: "string \<Rightarrow> string" where
  "getPrismaMethodName opT = lookupOr methodMap opT"


section \<open>Generated handlers (generateHandlerCode)\<close>

text \<open>
  A handler makes one call \<^verbatim>\<open>ctx.prisma.<delegate>.<method>(<args>)\<close>. The Prisma
  client is outside the generator: it is a parameter that answers a call with a result or
  throws. The clock gives \<^verbatim>\<open>new Date()\<close> and its ISO rendering.
\<close>

record call =
  callDelegate :: string
  callMethod :: string
  callArgs :: json

record env =
  prisma :: "call \<Rightarrow> thrown + json"
  now :: int
  nowISO :: string

text \<open>The expressions \<^verbatim>\<open>inputParam\<close> can be, evaluated on the handler's input.\<close>

definition whereOnly :: "json \<Rightarrow> thrown + json" where
  "whereOnly input = mapResult (\<lambda>w. JObj [(''where'', w)]) (getProp input ''where'')"

definition whereData :: "json \<Rightarrow> thrown + json" where
  "whereData input =
     (case getProp input ''where'' of Inl e \<Rightarrow> Inl e | Inr w \<Rightarrow>
      case getProp input ''data'' of Inl e \<Rightarrow> Inl e | Inr d \<Rightarrow>
        Inr (JObj [(''where'', w), (''data'', d)]))"

definition softWhereData :: "json \<Rightarrow> thrown + json" where
  "softWhereData input =
     (case getProp input ''where'' of Inl e \<Rightarrow> Inl e | Inr w \<Rightarrow>
      case spread w of Inl e \<Rightarrow> Inl e | Inr kvs \<Rightarrow>
      case getProp input ''data'' of Inl e \<Rightarrow> Inl e | Inr d \<Rightarrow>
        Inr (JObj [(''where'', JObj (setKey kvs ''deletedAt'' JNull)), (''data'', d)]))"

definition upsertParam :: "json \<Rightarrow> thrown + json" where
  "upsertParam input =
     (case getProp input ''where'' of Inl e \<Rightarrow> Inl e | Inr w \<Rightarrow>
      case getProp input ''create'' of Inl e \<Rightarrow> Inl e | Inr c \<Rightarrow>
      case getProp input ''update'' of Inl e \<Rightarrow> Inl e | Inr u \<Rightarrow>
        Inr (JObj [(''where'', w), (''create'', c), (''update'', u)]))"

definition inputParam :: "config \<Rightarrow> prisma_model \<Rightarrow> string \<Rightarrow> json \<Rightarrow> thrown + json" where
  "inputParam cfg m baseOp input =
     (if baseOp = ''create'' then mapResult (\<lambda>d. JObj [(''data'', d)]) (getProp input ''data'')
      else if baseOp = ''createMany'' then Inr input
      else if baseOp = ''findFirst'' \<or> baseOp = ''findMany'' then Inr input
      else if baseOp = ''findUnique'' then whereOnly input
      else if baseOp = ''update'' then
        (if enableSoftDeletes cfg \<and> hasDeletedAt m then softWhereData input else whereData input)
      else if baseOp = ''updateMany'' then
        (if enableSoftDeletes cfg \<and> hasDeletedAt m then softWhereData input else whereData input)
      else if baseOp = ''delete'' then whereOnly input
      else if baseOp = ''deleteMany'' then whereOnly input
      else if baseOp = ''count'' \<or> baseOp = ''aggregate'' \<or> baseOp = ''groupBy'' then Inr input
      else if baseOp = ''upsert'' then upsertParam input
      else Inr input)"

text \<open>
  The soft-delete aware reads:
  \<^verbatim>\<open>const queryArgs = { ...input }; if (!queryArgs.where) queryArgs.where = {};
  if (queryArgs.where.deletedAt === undefined) queryArgs.where.deletedAt = null;\<close>
\<close>

definition softDeleteArgs :: "json \<Rightarrow> thrown + json" where
  "softDeleteArgs input =
     (case spread input of Inl e \<Rightarrow> Inl e | Inr queryArgs \<Rightarrow>
        let w = optProp (JObj queryArgs) ''where'';
            w1 = (if truthy w then w else JObj []);
            queryArgs1 = (if truthy w then queryArgs else setKey queryArgs ''where'' (JObj []))
        in if optProp w1 ''deletedAt'' = JUndefined
           then (case setProp w1 ''deletedAt'' JNull of
                   Inl e \<Rightarrow> Inl e
                 | Inr w2 \<Rightarrow> Inr (JObj (setKey queryArgs1 ''where'' w2)))
           else Inr (JObj queryArgs1))"

text \<open>\<^verbatim>\<open>{ where: input.where, data: { deletedAt: new Date() } }\<close>\<close>

definition softDeleteData :: "int \<Rightarrow> json \<Rightarrow> thrown + json" where
  "softDeleteData t input =
     mapResult (\<lambda>w. JObj [(''where'', w), (''data'', JObj [(''deletedAt'', JDate t)])])
       (getProp input ''where'')"

text \<open>\<^verbatim>\<open>if (input?.k) args.k = input.k;\<close>\<close>

definition copyIf :: "json \<Rightarrow> string \<Rightarrow> (string \<times> json) list \<Rightarrow> (string \<times> json) list" where
  "copyIf input k a = (if truthy (optProp input k) then setKey a k (optProp input k) else a)"

text \<open>
  The statements of the group-by handler that build \<^verbatim>\<open>args\<close>, in their order: first
  \<^verbatim>\<open>by\<close>, \<^verbatim>\<open>where\<close>, \<^verbatim>\<open>orderBy\<close> and \<^verbatim>\<open>having\<close>,
\<close>

definition groupByKeys :: "json \<Rightarrow> (string \<times> json) list" where
  "groupByKeys input =
     (let a0 = [];
          a1 = (if truthy (optProp input ''by'')
                then setKey a0 ''by''
                       (if truthy (optProp (optProp input ''by'') ''length'')
                        then optProp input ''by'' else JArr [JStr ''id''])
                else a0);
          a2 = copyIf input ''where'' a1;
          a3 = copyIf input ''orderBy'' a2;
          a4 = copyIf input ''having'' a3
      in a4)"

text \<open>
  then, after \<^verbatim>\<open>take\<close>: \<^verbatim>\<open>skip\<close>, the ordering added to a paginated call that has
  none, and the aggregations the model supports,
\<close>

definition groupByRest :: "aggregations \<Rightarrow> json \<Rightarrow> (string \<times> json) list \<Rightarrow> (string \<times> json) list" where
  "groupByRest aggs input a5 =
     (let a6 = copyIf input ''skip'' a5;
          a7 = (if (truthy (optProp (JObj a6) ''take'') \<or> truthy (optProp (JObj a6) ''skip''))
                   \<and> \<not> truthy (optProp (JObj a6) ''orderBy'')
                then setKey a6 ''orderBy'' (JArr [JObj [(''id'', JStr ''asc'')]])
                else a6);
          a8 = (if supportsCount aggs then copyIf input ''_count'' a7 else a7);
          a9 = (if supportsSum aggs then copyIf input ''_sum'' a8 else a8);
          a10 = (if supportsAvg aggs then copyIf input ''_avg'' a9 else a9);
          a11 = (if supportsMin aggs then copyIf input ''_min'' a10 else a10);
          a12 = (if supportsMax aggs then copyIf input ''_max'' a11 else a11)
      in a12)"

text \<open>
  and between the two \<^verbatim>\<open>if (input?.take) args.take = Math.min(input.take, 500);\<close>
\<close>

definition groupByArgs :: "aggregations \<Rightarrow> json \<Rightarrow> thrown + json" where
  "groupByArgs aggs input =
     (case (if truthy (optProp input ''take'')
            then mapResult (setKey (groupByKeys input) ''take'') (mathMin (optProp input ''take'') 500)
            else Inr (groupByKeys input)) of
        Inl e \<Rightarrow> Inl e
      | Inr a5 \<Rightarrow> Inr (JObj (groupByRest aggs input a5)))"

text \<open>
  \<^verbatim>\<open>const aggArgs = input ? { ...input } : {}; if (!aggArgs._count && !aggArgs._avg &&
  !aggArgs._sum && !aggArgs._min && !aggArgs._max) aggArgs._count = { _all: true };\<close>
\<close>

definition aggregateArgs :: "json \<Rightarrow> thrown + json" where
  "aggregateArgs input =
     (case (if truthy input then spread input else Inr []) of
        Inl e \<Rightarrow> Inl e
      | Inr aggArgs \<Rightarrow>
          if \<not> truthy (optProp (JObj aggArgs) ''_count'') \<and> \<not> truthy (optProp (JObj aggArgs) ''_avg'')
             \<and> \<not> truthy (optProp (JObj aggArgs) ''_sum'') \<and> \<not> truthy (optProp (JObj aggArgs) ''_min'')
             \<and> \<not> truthy (optProp (JObj aggArgs) ''_max'')
          then Inr (JObj (setKey aggArgs ''_count'' (JObj [(''_all'', JBool True)])))
          else Inr (JObj aggArgs))"

text \<open>The condition every soft-delete branch of the generator tests.\<close>

definition softDeleteAware :: "config \<Rightarrow> prisma_model \<Rightarrow> bool" where
  "softDeleteAware cfg m = ((enableSoftDeletes cfg \<or> hasDeletedAt m) \<and> hasDeletedAt m)"

definition mkCall :: "string \<Rightarrow> string \<Rightarrow> json \<Rightarrow> call" where
  "mkCall d meth a = \<lparr>callDelegate = d, callMethod = meth, callArgs = a\<rparr>"

text \<open>
  The call statement the generator emits for an operation, chosen by its chain of
  branches, and evaluated on the input of the handler.
\<close>

definition prismaCall :: "string \<Rightarrow> string \<Rightarrow> config \<Rightarrow> prisma_model \<Rightarrow> int \<Rightarrow> json \<Rightarrow> thrown + call" where
  "prismaCall baseOp mName cfg m t input =
     (let modelVar = toLowerCase mName;
          prismaMethod = getPrismaMethodName baseOp
      in if softDeleteAware cfg m
            \<and> baseOp \<in> set [''findFirst'', ''findMany'', ''count'', ''aggregate'', ''groupBy'']
         then mapResult (mkCall modelVar prismaMethod) (softDeleteArgs input)
         else if softDeleteAware cfg m \<and> baseOp = ''findUnique''
         then mapResult (mkCall modelVar ''findUnique'') (softDeleteArgs input)
         else if softDeleteAware cfg m \<and> baseOp = ''delete''
         then mapResult (mkCall modelVar ''update'') (softDeleteData t input)
         else if softDeleteAware cfg m \<and> baseOp = ''deleteMany''
         then mapResult (mkCall modelVar ''updateMany'') (softDeleteData t input)
         else if baseOp = ''groupBy''
         then mapResult (mkCall modelVar ''groupBy'') (groupByArgs (getAvailableAggregations m) input)
         else if baseOp = ''aggregate''
         then mapResult (mkCall modelVar ''aggregate'') (aggregateArgs input)
         else if baseOp = ''delete''
         then mapResult (mkCall modelVar ''delete'') (whereOnly input)
         else if baseOp = ''deleteMany''
         then mapResult (mkCall modelVar ''deleteMany'') (whereOnly input)
         else mapResult (mkCall modelVar prismaMethod) (inputParam cfg m baseOp input))"

definition notFound :: "string \<Rightarrow> thrown" where
  "notFound mName = ORPCError ''NOT_FOUND'' (JObj [(''message'', JStr (mName @ '' not found''))])"

text \<open>\<^verbatim>\<open>createSuccessResponse(data, meta)\<close> of the generated router helpers.\<close>

definition createSuccessResponse :: "string \<Rightarrow> json \<Rightarrow> (string \<times> json) list \<Rightarrow> json" where
  "createSuccessResponse stamp d meta =
     (let nowMeta = foldl (\<lambda>acc (k, v). setKey acc k v) [(''timestamp'', JStr stamp)] meta;
          nowMeta1 = copyIf (JObj meta) ''requestId'' nowMeta;
          nowMeta2 = copyIf (JObj meta) ''correlationId'' nowMeta1
      in JObj [(''success'', JBool True), (''data'', d), (''meta'', JObj nowMeta2)])"

text \<open>The return statement of a handler.\<close>

definition respond :: "config \<Rightarrow> string \<Rightarrow> string \<Rightarrow> json \<Rightarrow> json" where
  "respond cfg stamp baseOp result =
     (if wrapResponses cfg
      then (if baseOp = ''count''
            then createSuccessResponse stamp (JObj [(''count'', result)]) [(''operation'', JStr baseOp)]
            else createSuccessResponse stamp result [(''operation'', JStr baseOp)])
      else (if baseOp = ''count'' then JObj [(''count'', result)] else result))"

text \<open>
  The handler \<^verbatim>\<open>generateHandlerCode\<close> emits, as the function it denotes: the call, the
  not-found checks of the two single-record reads, the return. (The generator's
  \<^verbatim>\<open>operationName\<close> argument is not used in the emitted text and is left out.)
\<close>

definition generateHandlerCode ::
  "string \<Rightarrow> string \<Rightarrow> config \<Rightarrow> prisma_model \<Rightarrow> env \<Rightarrow> json \<Rightarrow> thrown + json" where
  "generateHandlerCode baseOp mName cfg m e input =
     (case prismaCall baseOp mName cfg m (now e) input of
        Inl err \<Rightarrow> Inl err
      | Inr c \<Rightarrow>
         (case prisma e c of
            Inl err \<Rightarrow> Inl err
          | Inr result \<Rightarrow>
              if (baseOp = ''findUnique'' \<or> baseOp = ''findFirst'') \<and> \<not> truthy result
              then Inl (notFound mName)
              else if (baseOp = ''findUnique'' \<or> baseOp = ''findFirst'') \<and> softDeleteAware cfg m
                      \<and> truthy result \<and> truthy (optProp result ''deletedAt'')
              then Inl (notFound mName)
              else Inr (respond cfg (nowISO e) baseOp result)))"

section \<open>Generated error mapper (prismaErrorMapper)\<close>

fun typeofObject :: "json \<Rightarrow> bool" where
  "typeofObject JNull = True"
| "typeofObject (JDate t) = True"
| "typeofObject (JArr xs) = True"
| "typeofObject (JObj kvs) = True"
| "typeofObject v = False"

fun keyIn :: "string \<Rightarrow> json \<Rightarrow> bool" where
  "keyIn k (JObj kvs) = (k \<in> set (map fst kvs))"
| "keyIn k (JArr xs) = (k = ''length'')"
| "keyIn k v = False"

definition hasProp :: "json \<Rightarrow> string \<Rightarrow> bool" where
  "hasProp obj k = (typeofObject obj \<and> obj \<noteq> JNull \<and> keyIn k obj)"

fun isString :: "json \<Rightarrow> bool" where
  "isString (JStr s) = True"
| "isString v = False"

fun isNumber :: "json \<Rightarrow> bool" where
  "isNumber (JNum n) = True"
| "isNumber v = False"

definition isORPCError :: "json \<Rightarrow> bool" where
  "isORPCError err =
     (hasProp err ''code'' \<and> isString (optProp err ''code'')
      \<and> hasProp err ''status'' \<and> isNumber (optProp err ''status''))"

definition isPrismaKnownError :: "json \<Rightarrow> bool" where
  "isPrismaKnownError err =
     (typeofObject err \<and> err \<noteq> JNull
      \<and> hasProp err ''code'' \<and> isString (optProp err ''code'')
      \<and> hasProp err ''name'' \<and> optProp err ''name'' = JStr ''PrismaClientKnownRequestError'')"

definition isPrismaValidationError :: "json \<Rightarrow> bool" where
  "isPrismaValidationError err =
     (typeofObject err \<and> err \<noteq> JNull
      \<and> hasProp err ''name'' \<and> optProp err ''name'' = JStr ''PrismaClientValidationError'')"

text \<open>The \<^verbatim>\<open>switch\<close> on the error code; \<^verbatim>\<open>None\<close> where no case matches and control falls through.\<close>

definition knownErrorKind :: "json \<Rightarrow> string option" where
  "knownErrorKind code =
     (if code = JStr ''P2002'' \<or> code = JStr ''P2003'' then Some ''CONFLICT''
      else if code = JStr ''P2025'' \<or> code = JStr ''P2016'' \<or> code = JStr ''P2021'' then Some ''NOT_FOUND''
      else if code = JStr ''P2022'' \<or> code = JStr ''P2000'' then Some ''BAD_REQUEST''
      else None)"

text \<open>The mapper never returns: its value is what it throws.\<close>

definition prismaErrorMapper :: "json \<Rightarrow> thrown" where
  "prismaErrorMapper error =
     (if isORPCError error then Thrown error
      else case (if isPrismaKnownError error then knownErrorKind (optProp error ''code'') else None) of
             Some kind \<Rightarrow> ORPCError kind JUndefined
           | None \<Rightarrow>
               if isPrismaValidationError error then ORPCError ''BAD_REQUEST'' JUndefined
               else ORPCError ''INTERNAL_SERVER_ERROR'' JUndefined)"


section \<open>Example schema and configurations\<close>

definition allActions :: "string list" where
  "allActions = [''create'', ''createMany'', ''findFirst'', ''findMany'', ''findUnique'', ''update'',
     ''updateMany'', ''upsert'', ''delete'', ''deleteMany'', ''count'', ''aggregate'', ''groupBy'']"

text \<open>The documented defaults of the generator options.\<close>

definition defaultConfig :: config where
  "defaultConfig = \<lparr>showModelNameInProcedure = True, generateModelActions = allActions,
     defaultReadRule = ''allow'', defaultWriteRule = ''auth'', enableSoftDeletes = False,
     wrapResponses = False\<rparr>"

definition unprefixedConfig :: config where
  "unprefixedConfig = defaultConfig\<lparr>showModelNameInProcedure := False\<rparr>"

definition findManyOnlyConfig :: config where
  "findManyOnlyConfig = defaultConfig\<lparr>generateModelActions := [''findMany'']\<rparr>"

definition misconfigured :: config where
  "misconfigured =
     defaultConfig\<lparr>defaultReadRule := ''authenticated'', defaultWriteRule := ''ALLOW''\<rparr>"

definition softDeleteConfig :: config where
  "softDeleteConfig = defaultConfig\<lparr>enableSoftDeletes := True\<rparr>"

definition userModel :: prisma_model where
  "userModel = \<lparr>modelName = ''User'', modelFields =
     [\<lparr>fieldName = ''id'', fieldType = ''String'', isId = True, isList = False\<rparr>,
      \<lparr>fieldName = ''email'', fieldType = ''String'', isId = False, isList = False\<rparr>,
      \<lparr>fieldName = ''name'', fieldType = ''String'', isId = False, isList = False\<rparr>]\<rparr>"

definition postModel :: prisma_model where
  "postModel = \<lparr>modelName = ''Post'', modelFields =
     [\<lparr>fieldName = ''id'', fieldType = ''String'', isId = True, isList = False\<rparr>,
      \<lparr>fieldName = ''title'', fieldType = ''String'', isId = False, isList = False\<rparr>,
      \<lparr>fieldName = ''deletedAt'', fieldType = ''DateTime'', isId = False, isList = False\<rparr>]\<rparr>"

text \<open>The operation mapping Prisma's DMMF gives for \<^verbatim>\<open>User\<close>, and one that has no operation.\<close>

definition userOperations :: operations where
  "userOperations = [(''model'', ''User''), (''findUnique'', ''findUniqueUser''),
     (''findUniqueOrThrow'', ''findUniqueUserOrThrow''),
     (''findFirst'', ''findFirstUser''), (''findFirstOrThrow'', ''findFirstUserOrThrow''),
     (''findMany'', ''findManyUser''), (''create'', ''createOneUser''),
     (''createMany'', ''createManyUser''), (''delete'', ''deleteOneUser''),
     (''update'', ''updateOneUser''), (''deleteMany'', ''deleteManyUser''),
     (''updateMany'', ''updateManyUser''), (''upsert'', ''upsertOneUser''),
     (''aggregate'', ''aggregateUser''), (''groupBy'', ''groupByUser''),
     (''count'', ''countUser'')]"

definition bareOperations :: operations where
  "bareOperations = [(''model'', ''User'')]"

text \<open>The four kinds of the error taxonomy, and three errors the mapper can receive.\<close>

definition fourKinds :: "thrown list" where
  "fourKinds = [ORPCError ''CONFLICT'' JUndefined, ORPCError ''NOT_FOUND'' JUndefined,
                ORPCError ''BAD_REQUEST'' JUndefined, ORPCError ''INTERNAL_SERVER_ERROR'' JUndefined]"

definition forbiddenError :: json where
  "forbiddenError = JObj [(''code'', JStr ''FORBIDDEN''), (''status'', JNum 403)]"

definition uniqueViolationWithStatus :: json where
  "uniqueViolationWithStatus =
     JObj [(''name'', JStr ''PrismaClientKnownRequestError''), (''code'', JStr ''P2002''),
           (''status'', JNum 409)]"

definition uniqueViolation :: json where
  "uniqueViolation =
     JObj [(''name'', JStr ''PrismaClientKnownRequestError''), (''code'', JStr ''P2002'')]"

text \<open>A Prisma client that answers every call with the same result, at a fixed time.\<close>

definition answering :: "json \<Rightarrow> env" where
  "answering r = \<lparr>prisma = (\<lambda>c. Inr r), now = 1700000000000, nowISO = ''2023-11-14T22:13:20.000Z''\<rparr>"

definition wrappingConfig :: config where
  "wrappingConfig = defaultConfig\<lparr>wrapResponses := True\<rparr>"

definition byIdInput :: json where
  "byIdInput = JObj [(''where'', JObj [(''id'', JStr ''p1'')])]"

definition deletedPost :: json where
  "deletedPost = JObj [(''id'', JStr ''p1''), (''title'', JStr ''Hello''), (''deletedAt'', JDate 1600000000000)]"

definition deletedOnlyInput :: json where
  "deletedOnlyInput = JObj [(''where'', JObj [(''deletedAt'', JObj [(''not'', JNull)])])]"

definition zeroRows :: json where
  "zeroRows = JObj [(''count'', JNum 0)]"


definition byNameTakeZero :: json where
  "byNameTakeZero = JObj [(''by'', JArr [JStr ''name'']), (''take'', JNum 0)]"

definition byNameTakeThousand :: json where
  "byNameTakeThousand = JObj [(''by'', JArr [JStr ''name'']), (''take'', JNum 1000)]"

definition sumOfAge :: json where
  "sumOfAge = JObj [(''_sum'', JObj [(''age'', JBool True)])]"

definition groupBySumOfAge :: json where
  "groupBySumOfAge = JObj [(''by'', JArr [JStr ''name'']), (''_sum'', JObj [(''age'', JBool True)])]"

definition idAscending :: json where
  "idAscending = JArr [JObj [(''id'', JStr ''asc'')]]"

definition countAll :: json where
  "countAll = JObj [(''_all'', JBool True)]"

definition titledInput :: json where
  "titledInput = JObj [(''where'', JObj [(''title'', JStr ''Hello'')]), (''take'', JNum 3)]"

section \<open>Input shapes named in the statements\<close>

text \<open>The shapes of \<^verbatim>\<open>take\<close> the group-by handler is followed on: a number, or nothing truthy.\<close>

definition numberOrFalsy :: "json \<Rightarrow> bool" where
  "numberOrFalsy v = (isNumber v \<or> \<not> truthy v)"

text \<open>No aggregate sub-field is selected: none of the five is truthy.\<close>

definition selectsNothing :: "json \<Rightarrow> bool" where
  "selectsNothing input =
     (\<not> truthy (optProp input ''_count'') \<and> \<not> truthy (optProp input ''_avg'')
      \<and> \<not> truthy (optProp input ''_sum'') \<and> \<not> truthy (optProp input ''_min'')
      \<and> \<not> truthy (optProp input ''_max''))"

text \<open>The non-list numeric fields of a model, as \<^verbatim>\<open>getAvailableAggregations\<close> filters them.\<close>

definition numericFieldsOf :: "prisma_model \<Rightarrow> prisma_field list" where
  "numericFieldsOf m = filter (\<lambda>f. fieldType f \<in> set numericTypes \<and> \<not> isList f) (modelFields m)"

text \<open>The shapes of \<^verbatim>\<open>where\<close> the soft-delete filter is followed on: absent, null or an object.\<close>

fun isObject :: "json \<Rightarrow> bool" where
  "isObject (JObj kvs) = True"
| "isObject v = False"

definition plainWhere :: "json \<Rightarrow> bool" where
  "plainWhere w = (nullish w \<or> isObject w)"

section \<open>Properties: procedure names\<close>

text \<open>
  C1. With the model name shown in procedure names, \<^verbatim>\<open>getProcedureName\<close> lower-cases the
  whole model name: for \<^verbatim>\<open>AccommodationPricing\<close> and \<^verbatim>\<open>create\<close> it yields
  \<^verbatim>\<open>accommodationpricingCreate\<close>, not \<^verbatim>\<open>accommodationPricingCreate\<close>, the name that
  lower-casing the first letter alone would give.
\<close>

theorem getProcedureName_lowercases_whole_name:
  "getProcedureName defaultConfig ''create'' ''AccommodationPricing'' = ''accommodationpricingCreate''
   \<and> getProcedureName defaultConfig ''create'' ''AccommodationPricing'' \<noteq> ''accommodationPricingCreate''"
  by code_simp

text \<open>The shield generator's own helper keeps the inner capitals of the same name.\<close>

lemma toLowerCamelCase_keeps_inner_capitals:
  "toLowerCamelCase ''AccommodationPricing'' = ''accommodationPricing''"
  by code_simp

section \<open>Properties: generated operations\<close>

lemma mappedLoop_names:
  "map baseOpType (fst acc) = snd acc \<Longrightarrow>
   map baseOpType (fst (mappedLoop cfg mName ops acc)) = snd (mappedLoop cfg mName ops acc)"
  by (induction cfg mName ops acc rule: mappedLoop.induct)
     (auto simp: Let_def generateSingleProcedure_def)

lemma essentialLoop_names:
  "map baseOpType (fst acc) = snd acc \<Longrightarrow>
   map baseOpType (fst (essentialLoop cfg mName es acc)) = snd (essentialLoop cfg mName es acc)"
  by (induction cfg mName es acc rule: essentialLoop.induct)
     (auto simp: generateSingleProcedure_def)

lemma essentialLoop_mono:
  "g \<in> set gen \<Longrightarrow> g \<in> set (snd (essentialLoop cfg mName es (procs, gen)))"
proof (induction es arbitrary: procs gen)
  case Nil
  then show ?case by simp
next
  case (Cons e es)
  show ?case
  proof (cases "e \<notin> set gen \<and> shouldGenerateOperation e cfg")
    case True
    have "g \<in> set (gen @ [e])" using Cons.prems by simp
    from Cons.IH[OF this] show ?thesis using True by simp
  next
    case False
    then have "essentialLoop cfg mName (e # es) (procs, gen) = essentialLoop cfg mName es (procs, gen)"
      by (simp only: essentialLoop.simps if_False)
    with Cons.IH[OF Cons.prems] show ?thesis by simp
  qed
qed

lemma essentialLoop_allowed:
  "\<forall>b \<in> set gen. shouldGenerateOperation b cfg \<Longrightarrow>
   \<forall>b \<in> set (snd (essentialLoop cfg mName es (procs, gen))). shouldGenerateOperation b cfg"
proof (induction es arbitrary: procs gen)
  case Nil
  then show ?case by simp
next
  case (Cons e es)
  show ?case
  proof (cases "e \<notin> set gen \<and> shouldGenerateOperation e cfg")
    case True
    have "\<forall>b \<in> set (gen @ [e]). shouldGenerateOperation b cfg" using Cons.prems True by simp
    from Cons.IH[OF this] show ?thesis using True by simp
  next
    case False
    then have "essentialLoop cfg mName (e # es) (procs, gen) = essentialLoop cfg mName es (procs, gen)"
      by (simp only: essentialLoop.simps if_False)
    with Cons.IH[OF Cons.prems] show ?thesis by simp
  qed
qed

lemma essentialLoop_covers:
  "e \<in> set es \<Longrightarrow> shouldGenerateOperation e cfg \<Longrightarrow>
   e \<in> set (snd (essentialLoop cfg mName es (procs, gen)))"
proof (induction es arbitrary: procs gen)
  case Nil
  then show ?case by simp
next
  case (Cons x es)
  show ?case
  proof (cases "x \<notin> set gen \<and> shouldGenerateOperation x cfg")
    case True
    then have step: "essentialLoop cfg mName (x # es) (procs, gen) =
        essentialLoop cfg mName es (procs @ [generateSingleProcedure cfg mName x x x], gen @ [x])"
      by simp
    show ?thesis
    proof (cases "e = x")
      case True
      then have "e \<in> set (gen @ [x])" by simp
      from essentialLoop_mono[OF this] show ?thesis unfolding step .
    next
      case False
      with Cons.prems have "e \<in> set es" by simp
      from Cons.IH[OF this Cons.prems(2)] show ?thesis unfolding step .
    qed
  next
    case False
    then have step: "essentialLoop cfg mName (x # es) (procs, gen) = essentialLoop cfg mName es (procs, gen)"
      by (simp only: essentialLoop.simps if_False)
    show ?thesis
    proof (cases "e = x")
      case True
      with False Cons.prems(2) have "e \<in> set gen" by simp
      from essentialLoop_mono[OF this] show ?thesis unfolding step .
    next
      case False
      with Cons.prems have "e \<in> set es" by simp
      from Cons.IH[OF this Cons.prems(2)] show ?thesis unfolding step .
    qed
  qed
qed

lemma mappedLoop_allowed:
  "\<forall>b \<in> set gen. shouldGenerateOperation b cfg \<Longrightarrow>
   \<forall>b \<in> set (snd (mappedLoop cfg mName ops (procs, gen))). shouldGenerateOperation b cfg"
proof (induction ops arbitrary: procs gen)
  case Nil
  then show ?case by simp
next
  case (Cons x ops)
  obtain opT opName where x: "x = (opT, opName)" by (cases x)
  define baseOp where "baseOp = replaceFirst ''OrThrow'' [] opT"
  show ?case
  proof (cases "opT \<noteq> ''model'' \<and> baseOp \<notin> set gen \<and> shouldGenerateOperation baseOp cfg")
    case True
    then have step: "mappedLoop cfg mName (x # ops) (procs, gen) =
        mappedLoop cfg mName ops
          (procs @ [generateSingleProcedure cfg mName opName opT baseOp], gen @ [baseOp])"
      by (simp add: x baseOp_def Let_def)
    have "\<forall>b \<in> set (gen @ [baseOp]). shouldGenerateOperation b cfg"
      using Cons.prems True by simp
    from Cons.IH[OF this] show ?thesis unfolding step .
  next
    case False
    then have step: "mappedLoop cfg mName (x # ops) (procs, gen) = mappedLoop cfg mName ops (procs, gen)"
      by (auto simp: x baseOp_def Let_def)
    from Cons.IH[OF Cons.prems] show ?thesis unfolding step .
  qed
qed

lemma generated_baseOps:
  "findOperations mo (modelName m) = Some ops \<Longrightarrow>
   map baseOpType (generateModelProcedures cfg m mo) =
   snd (essentialLoop cfg (modelName m) essentialOperations (mappedLoop cfg (modelName m) ops ([], [])))"
  using essentialLoop_names[OF mappedLoop_names[of "([], [])" cfg "modelName m" ops], of cfg "modelName m" essentialOperations]
  by (simp add: generateModelProcedures_def)

text \<open>
  C4 (as amended). For a model that has an entry in the operation mapping, every essential
  operation the allow-list contains is generated, also when the mapping has no such
  operation; and no operation outside the allow-list is generated, essential or not.
\<close>

theorem essential_generated_when_allowed:
  "(findOperations mo (modelName m) = Some ops \<and> e \<in> set essentialOperations \<and>
      shouldGenerateOperation e cfg
      \<longrightarrow> e \<in> set (map baseOpType (generateModelProcedures cfg m mo)))
   \<and> (\<forall>p \<in> set (generateModelProcedures cfg m mo). shouldGenerateOperation (baseOpType p) cfg)"
proof (intro conjI impI)
  assume a: "findOperations mo (modelName m) = Some ops \<and> e \<in> set essentialOperations \<and>
      shouldGenerateOperation e cfg"
  obtain procs gen where acc: "mappedLoop cfg (modelName m) ops ([], []) = (procs, gen)"
    by (cases "mappedLoop cfg (modelName m) ops ([], [])")
  from a have "e \<in> set (snd (essentialLoop cfg (modelName m) essentialOperations (procs, gen)))"
    by (intro essentialLoop_covers) simp_all
  with a acc show "e \<in> set (map baseOpType (generateModelProcedures cfg m mo))"
    by (simp add: generated_baseOps)
next
  show "\<forall>p \<in> set (generateModelProcedures cfg m mo). shouldGenerateOperation (baseOpType p) cfg"
  proof (cases "findOperations mo (modelName m)")
    case None
    then show ?thesis by (simp add: generateModelProcedures_def)
  next
    case (Some ops')
    obtain procs gen where acc: "mappedLoop cfg (modelName m) ops' ([], []) = (procs, gen)"
      by (cases "mappedLoop cfg (modelName m) ops' ([], [])")
    have "\<forall>b \<in> set (snd (mappedLoop cfg (modelName m) ops' ([], []))). shouldGenerateOperation b cfg"
      by (rule mappedLoop_allowed) simp
    then have "\<forall>b \<in> set gen. shouldGenerateOperation b cfg" by (simp add: acc)
    from essentialLoop_allowed[OF this]
    have "\<forall>b \<in> set (map baseOpType (generateModelProcedures cfg m mo)). shouldGenerateOperation b cfg"
      by (simp add: generated_baseOps[OF Some] acc)
    then show ?thesis by simp
  qed
qed

theorem essential_generated_when_allowed_witness:
  "findOperations [bareOperations] (modelName userModel) = Some bareOperations
   \<and> ''create'' \<in> set essentialOperations
   \<and> shouldGenerateOperation ''create'' defaultConfig
   \<and> ''create'' \<in> set (map baseOpType (generateModelProcedures defaultConfig userModel [bareOperations]))"
  using essential_generated_when_allowed[of "[bareOperations]" userModel bareOperations "''create''" defaultConfig]
  by (simp add: findOperations_def bareOperations_def userModel_def essentialOperations_def
        shouldGenerateOperation_def defaultConfig_def allActions_def)

text \<open>
  C4 (as stated) fails: with the allow-list \<^verbatim>\<open>findMany\<close> alone, no \<^verbatim>\<open>create\<close>
  procedure is generated for \<^verbatim>\<open>User\<close>.
\<close>

theorem essential_omitted_counterexample:
  "''create'' \<notin> set (map baseOpType (generateModelProcedures findManyOnlyConfig userModel [userOperations]))"
  by code_simp


section \<open>Properties: authorization rules\<close>

lemma map_of_swapped:
  "distinct (map snd xs) \<Longrightarrow> (p, s) \<in> set xs \<Longrightarrow>
   map_of (map (\<lambda>(k, v). (v, f k)) xs) s = Some (f p)"
proof (induction xs)
  case Nil
  then show ?case by simp
next
  case (Cons x xs)
  obtain k v where x: "x = (k, v)" by (cases x)
  show ?case
  proof (cases "v = s")
    case True
    with Cons.prems x have "p = k" by (auto simp: image_iff)
    with True x show ?thesis by simp
  next
    case False
    with Cons.prems x have "(p, s) \<in> set xs" by auto
    with Cons x False show ?thesis by simp
  qed
qed

lemma operationMappings_distinct: "distinct (map snd operationMappings)"
  by code_simp

lemma rule_consts_differ: "''canRead'' @ n \<noteq> ''canWrite'' @ n"
  by simp

lemma shieldRuleOf_mapped:
  assumes "(prismaOp, shieldOp) \<in> set operationMappings"
  shows "shieldRuleOf cfg m shieldOp =
     map_of (generateRulesForModel cfg m)
       (if isWriteOperation prismaOp then ''canWrite'' @ modelName m else ''canRead'' @ modelName m)"
  unfolding shieldRuleOf_def generateModelShieldConfig_def snd_conv
  by (subst map_of_swapped[OF operationMappings_distinct assms]) simp

text \<open>
  C3. Whenever the configured default read rule is none of \<^verbatim>\<open>auth\<close>, \<^verbatim>\<open>deny\<close>,
  \<^verbatim>\<open>allow\<close>, every read operation of the generated table resolves to \<^verbatim>\<open>deny\<close>; and
  whenever the configured default write rule is none of them, every write operation does.
\<close>

theorem unrecognized_default_rule_denies:
  "(defaultReadRule cfg \<notin> {''auth'', ''deny'', ''allow''} \<longrightarrow>
      (\<forall>(prismaOp, shieldOp) \<in> set operationMappings.
         \<not> isWriteOperation prismaOp \<longrightarrow> shieldRuleOf cfg m shieldOp = Some Deny))
   \<and> (defaultWriteRule cfg \<notin> {''auth'', ''deny'', ''allow''} \<longrightarrow>
      (\<forall>(prismaOp, shieldOp) \<in> set operationMappings.
         isWriteOperation prismaOp \<longrightarrow> shieldRuleOf cfg m shieldOp = Some Deny))"
proof (intro conjI impI)
  assume r: "defaultReadRule cfg \<notin> {''auth'', ''deny'', ''allow''}"
  show "\<forall>(prismaOp, shieldOp) \<in> set operationMappings.
         \<not> isWriteOperation prismaOp \<longrightarrow> shieldRuleOf cfg m shieldOp = Some Deny"
  proof (clarify)
    fix prismaOp shieldOp
    assume "(prismaOp, shieldOp) \<in> set operationMappings" "\<not> isWriteOperation prismaOp"
    then show "shieldRuleOf cfg m shieldOp = Some Deny"
      using r by (simp add: shieldRuleOf_mapped generateRulesForModel_def)
  qed
next
  assume w: "defaultWriteRule cfg \<notin> {''auth'', ''deny'', ''allow''}"
  show "\<forall>(prismaOp, shieldOp) \<in> set operationMappings.
         isWriteOperation prismaOp \<longrightarrow> shieldRuleOf cfg m shieldOp = Some Deny"
  proof (clarify)
    fix prismaOp shieldOp
    assume "(prismaOp, shieldOp) \<in> set operationMappings" "isWriteOperation prismaOp"
    then show "shieldRuleOf cfg m shieldOp = Some Deny"
      using w by (simp add: shieldRuleOf_mapped generateRulesForModel_def)
  qed
qed


theorem unrecognized_default_rule_denies_witness:
  "defaultReadRule misconfigured \<notin> {''auth'', ''deny'', ''allow''} \<and>
   defaultWriteRule misconfigured \<notin> {''auth'', ''deny'', ''allow''} \<and>
   shieldRuleOf misconfigured userModel ''list'' = Some Deny \<and>
   shieldRuleOf misconfigured userModel ''create'' = Some Deny"
  using unrecognized_default_rule_denies[of misconfigured userModel]
  by (simp add: misconfigured_def defaultConfig_def operationMappings_def isWriteOperation_def)

text \<open>
  The earlier version of the method let an unrecognized read rule through as \<^verbatim>\<open>allow\<close>.
\<close>

lemma older_read_fallback_allows:
  "map_of (generateRulesForModel_older misconfigured userModel) ''canReadUser'' = Some Allow"
  by code_simp

text \<open>
  C2. The keys of the generated rule table are not the generated procedure names. For
  \<^verbatim>\<open>User\<close> with all operations enabled: without the model-name prefix the table has the
  key \<^verbatim>\<open>list\<close>, which is no procedure name, and lacks the procedure name
  \<^verbatim>\<open>findMany\<close>; with the prefix (the default) no key of the table is a procedure name.
\<close>

theorem shield_keys_are_not_procedure_names:
  "''list'' \<in> set (shieldKeys userModel)
   \<and> ''list'' \<notin> set (procedureNames unprefixedConfig userModel [userOperations])
   \<and> ''findMany'' \<in> set (procedureNames unprefixedConfig userModel [userOperations])
   \<and> ''findMany'' \<notin> set (shieldKeys userModel)
   \<and> filter (\<lambda>k. k \<in> set (procedureNames defaultConfig userModel [userOperations]))
        (shieldKeys userModel) = []"
  by code_simp

section \<open>Properties: error mapper\<close>

lemma knownErrorKind_cases:
  "knownErrorKind c = None \<or> knownErrorKind c = Some ''CONFLICT'' \<or>
   knownErrorKind c = Some ''NOT_FOUND'' \<or> knownErrorKind c = Some ''BAD_REQUEST''"
  by (cases "c = JStr ''P2002'' \<or> c = JStr ''P2003''";
      cases "c = JStr ''P2025'' \<or> c = JStr ''P2016'' \<or> c = JStr ''P2021''";
      cases "c = JStr ''P2022'' \<or> c = JStr ''P2000''";
      simp add: knownErrorKind_def)

lemma known_not_validation:
  "isPrismaKnownError e \<Longrightarrow> \<not> isPrismaValidationError e"
  unfolding isPrismaKnownError_def isPrismaValidationError_def by simp

text \<open>
  C7 (as amended). An error that already looks like an oRPC error (a string \<^verbatim>\<open>code\<close> and
  a numeric \<^verbatim>\<open>status\<close>) is thrown again as it is. Every other input is mapped to exactly
  one of the four kinds: the unique and foreign-key codes to \<^verbatim>\<open>CONFLICT\<close>, the
  missing-record codes to \<^verbatim>\<open>NOT_FOUND\<close>, the invalid-value codes and validation errors
  to \<^verbatim>\<open>BAD_REQUEST\<close>, anything else to \<^verbatim>\<open>INTERNAL_SERVER_ERROR\<close>.
\<close>

theorem prismaErrorMapper_taxonomy:
  "(isORPCError e \<longrightarrow> prismaErrorMapper e = Thrown e)
   \<and> (\<not> isORPCError e \<longrightarrow>
        prismaErrorMapper e \<in> set fourKinds
        \<and> (isPrismaKnownError e \<and> optProp e ''code'' \<in> {JStr ''P2002'', JStr ''P2003''}
             \<longrightarrow> prismaErrorMapper e = ORPCError ''CONFLICT'' JUndefined)
        \<and> (isPrismaKnownError e \<and> optProp e ''code'' \<in> {JStr ''P2025'', JStr ''P2016'', JStr ''P2021''}
             \<longrightarrow> prismaErrorMapper e = ORPCError ''NOT_FOUND'' JUndefined)
        \<and> (isPrismaKnownError e \<and> optProp e ''code'' \<in> {JStr ''P2022'', JStr ''P2000''}
             \<longrightarrow> prismaErrorMapper e = ORPCError ''BAD_REQUEST'' JUndefined)
        \<and> (isPrismaValidationError e \<longrightarrow> prismaErrorMapper e = ORPCError ''BAD_REQUEST'' JUndefined)
        \<and> (\<not> isPrismaValidationError e
             \<and> (isPrismaKnownError e \<longrightarrow> knownErrorKind (optProp e ''code'') = None)
             \<longrightarrow> prismaErrorMapper e = ORPCError ''INTERNAL_SERVER_ERROR'' JUndefined))"
proof (intro conjI impI)
  assume "isORPCError e"
  then show "prismaErrorMapper e = Thrown e" by (simp add: prismaErrorMapper_def)
next
  assume n: "\<not> isORPCError e"
  show "prismaErrorMapper e \<in> set fourKinds"
    using n knownErrorKind_cases[of "optProp e ''code''"]
    by (auto simp: prismaErrorMapper_def fourKinds_def)
next
  assume n: "\<not> isORPCError e"
    and k: "isPrismaKnownError e \<and> optProp e ''code'' \<in> {JStr ''P2002'', JStr ''P2003''}"
  then have "knownErrorKind (optProp e ''code'') = Some ''CONFLICT''"
    by (auto simp: knownErrorKind_def)
  with n k show "prismaErrorMapper e = ORPCError ''CONFLICT'' JUndefined"
    by (simp add: prismaErrorMapper_def)
next
  assume n: "\<not> isORPCError e"
    and k: "isPrismaKnownError e \<and> optProp e ''code'' \<in> {JStr ''P2025'', JStr ''P2016'', JStr ''P2021''}"
  then have "knownErrorKind (optProp e ''code'') = Some ''NOT_FOUND''"
    by (auto simp: knownErrorKind_def)
  with n k show "prismaErrorMapper e = ORPCError ''NOT_FOUND'' JUndefined"
    by (simp add: prismaErrorMapper_def)
next
  assume n: "\<not> isORPCError e"
    and k: "isPrismaKnownError e \<and> optProp e ''code'' \<in> {JStr ''P2022'', JStr ''P2000''}"
  then have "knownErrorKind (optProp e ''code'') = Some ''BAD_REQUEST''"
    by (auto simp: knownErrorKind_def)
  with n k show "prismaErrorMapper e = ORPCError ''BAD_REQUEST'' JUndefined"
    by (simp add: prismaErrorMapper_def)
next
  assume n: "\<not> isORPCError e" and v: "isPrismaValidationError e"
  then have "\<not> isPrismaKnownError e" using known_not_validation by blast
  with n v show "prismaErrorMapper e = ORPCError ''BAD_REQUEST'' JUndefined"
    by (simp add: prismaErrorMapper_def)
next
  assume n: "\<not> isORPCError e"
    and u: "\<not> isPrismaValidationError e
             \<and> (isPrismaKnownError e \<longrightarrow> knownErrorKind (optProp e ''code'') = None)"
  then show "prismaErrorMapper e = ORPCError ''INTERNAL_SERVER_ERROR'' JUndefined"
    by (simp add: prismaErrorMapper_def)
qed

theorem prismaErrorMapper_taxonomy_witness:
  "\<not> isORPCError uniqueViolation
   \<and> isPrismaKnownError uniqueViolation
   \<and> prismaErrorMapper uniqueViolation = ORPCError ''CONFLICT'' JUndefined
   \<and> isORPCError forbiddenError
   \<and> prismaErrorMapper forbiddenError = Thrown forbiddenError"
  using prismaErrorMapper_taxonomy[of uniqueViolation] prismaErrorMapper_taxonomy[of forbiddenError]
  by (simp add: uniqueViolation_def forbiddenError_def isORPCError_def isPrismaKnownError_def hasProp_def)

text \<open>
  C7 (as stated) fails: the shield's \<^verbatim>\<open>FORBIDDEN\<close> error leaves the mapper unchanged and
  is none of the four kinds, and a unique-constraint error that carries a numeric
  \<^verbatim>\<open>status\<close> is thrown again as it came.
\<close>

theorem prismaErrorMapper_rethrows_counterexample:
  "prismaErrorMapper forbiddenError = Thrown forbiddenError
   \<and> Thrown forbiddenError \<notin> set fourKinds
   \<and> prismaErrorMapper uniqueViolationWithStatus = Thrown uniqueViolationWithStatus"
  by code_simp

section \<open>Properties: not-found policy\<close>

lemma softDeleteAware_iff: "softDeleteAware cfg m = hasDeletedAt m"
  by (auto simp: softDeleteAware_def)

text \<open>
  The only errors raised while the arguments of the call are read from the input: a
  TypeError on a missing input or, where the embedding does not follow a coercion,
  \<^verbatim>\<open>OutOfModel\<close>. No branch raises an oRPC error there.
\<close>

lemma mapResult_Inl: "(mapResult f r = Inl err) = (r = Inl err)"
  by (cases r) (simp_all add: mapResult_def)

lemma getProp_error: "getProp x k = Inl err \<Longrightarrow> err = TypeError"
  by (simp add: getProp_def split: if_splits)

lemma spread_error: "spread x = Inl err \<Longrightarrow> err = OutOfModel"
  by (cases x) (simp_all split: if_splits)

lemma setProp_error: "setProp x k v = Inl err \<Longrightarrow> err = TypeError \<or> err = OutOfModel"
  by (cases x) auto

lemma mathMin_error: "mathMin v k = Inl err \<Longrightarrow> err = OutOfModel"
  by (cases v) simp_all

lemma whereOnly_error: "whereOnly input = Inl err \<Longrightarrow> err = TypeError"
  by (simp add: whereOnly_def mapResult_Inl getProp_error)

lemma whereData_error: "whereData input = Inl err \<Longrightarrow> err = TypeError"
  by (auto simp: whereData_def split: sum.splits dest: getProp_error)

lemma softWhereData_error:
  "softWhereData input = Inl err \<Longrightarrow> err = TypeError \<or> err = OutOfModel"
  by (auto simp: softWhereData_def split: sum.splits dest: getProp_error spread_error)

lemma upsertParam_error: "upsertParam input = Inl err \<Longrightarrow> err = TypeError"
  by (auto simp: upsertParam_def split: sum.splits dest: getProp_error)

lemma if_result_cases:
  "(if c then a else b) = r \<Longrightarrow> (c \<Longrightarrow> a = r \<Longrightarrow> P) \<Longrightarrow> (\<not> c \<Longrightarrow> b = r \<Longrightarrow> P) \<Longrightarrow> P"
  by (cases c) simp_all

lemma Inr_not_error: "Inr a = Inl err \<Longrightarrow> P"
  by simp

lemma inputParam_error:
  assumes "inputParam cfg m baseOp input = Inl err"
  shows "err = TypeError \<or> err = OutOfModel"
proof -
  have r: "\<And>f r. mapResult f r = Inl err \<Longrightarrow> r = Inl err"
    by (simp add: mapResult_Inl)
  from assms show ?thesis
    unfolding inputParam_def
    by (elim if_result_cases Inr_not_error)
       (auto dest!: r dest: getProp_error whereOnly_error softWhereData_error whereData_error
                            upsertParam_error simp del: One_nat_def)
qed

lemma softDeleteArgs_error:
  "softDeleteArgs input = Inl err \<Longrightarrow> err = TypeError \<or> err = OutOfModel"
  by (auto simp: softDeleteArgs_def Let_def simp del: optProp.simps
           split: sum.splits if_splits dest: spread_error setProp_error)

lemma softDeleteData_error: "softDeleteData t input = Inl err \<Longrightarrow> err = TypeError"
  by (simp add: softDeleteData_def mapResult_Inl getProp_error)

lemma groupByArgs_error: "groupByArgs aggs input = Inl err \<Longrightarrow> err = OutOfModel"
  by (auto simp: groupByArgs_def mapResult_Inl split: sum.splits if_splits dest: mathMin_error)

lemma aggregateArgs_error: "aggregateArgs input = Inl err \<Longrightarrow> err = OutOfModel"
  by (auto simp: aggregateArgs_def simp del: optProp.simps
           split: sum.splits if_splits dest: spread_error)

lemma nine_branches:
  assumes "(if c1 then a1 else if c2 then a2 else if c3 then a3 else if c4 then a4
            else if c5 then a5 else if c6 then a6 else if c7 then a7 else if c8 then a8
            else a9) = r"
  shows "a1 = r \<or> a2 = r \<or> a3 = r \<or> a4 = r \<or> a5 = r \<or> a6 = r \<or> a7 = r \<or> a8 = r \<or> a9 = r"
  using assms by (simp split: if_splits)

lemma prismaCall_error:
  assumes "prismaCall baseOp mName cfg m t input = Inl err"
  shows "err = TypeError \<or> err = OutOfModel"
proof -
  let ?v = "toLowerCase mName"
  let ?p = "getPrismaMethodName baseOp"
  from assms have
    "mapResult (mkCall ?v ?p) (softDeleteArgs input) = Inl err
     \<or> mapResult (mkCall ?v ''findUnique'') (softDeleteArgs input) = Inl err
     \<or> mapResult (mkCall ?v ''update'') (softDeleteData t input) = Inl err
     \<or> mapResult (mkCall ?v ''updateMany'') (softDeleteData t input) = Inl err
     \<or> mapResult (mkCall ?v ''groupBy'') (groupByArgs (getAvailableAggregations m) input) = Inl err
     \<or> mapResult (mkCall ?v ''aggregate'') (aggregateArgs input) = Inl err
     \<or> mapResult (mkCall ?v ''delete'') (whereOnly input) = Inl err
     \<or> mapResult (mkCall ?v ''deleteMany'') (whereOnly input) = Inl err
     \<or> mapResult (mkCall ?v ?p) (inputParam cfg m baseOp input) = Inl err"
    unfolding prismaCall_def Let_def by (rule nine_branches)
  then have "softDeleteArgs input = Inl err \<or> softDeleteData t input = Inl err
     \<or> groupByArgs (getAvailableAggregations m) input = Inl err
     \<or> aggregateArgs input = Inl err \<or> whereOnly input = Inl err
     \<or> inputParam cfg m baseOp input = Inl err"
    unfolding mapResult_Inl by blast
  then show ?thesis
    using softDeleteArgs_error[of input err] softDeleteData_error[of t input err]
      groupByArgs_error[of "getAvailableAggregations m" input err] aggregateArgs_error[of input err]
      whereOnly_error[of input err] inputParam_error[of cfg m baseOp input err]
    by blast
qed

lemma createSuccessResponse_operation:
  "createSuccessResponse stamp d [(''operation'', JStr baseOp)] =
     JObj [(''success'', JBool True), (''data'', d),
           (''meta'', JObj [(''timestamp'', JStr stamp), (''operation'', JStr baseOp)])]"
  by (simp add: createSuccessResponse_def copyIf_def)

text \<open>
  C6 (as amended). An error raised while the arguments of the call are read from the input
  (a TypeError on a missing input) is what the handler throws, and it is no oRPC error; an
  error thrown by the Prisma client is thrown on. When the client returns a result,
  \<^verbatim>\<open>findUnique\<close> and \<^verbatim>\<open>findFirst\<close> throw \<^verbatim>\<open>NOT_FOUND\<close> exactly when the result is
  no record or, for a model with a \<^verbatim>\<open>deletedAt\<close> field, a record whose \<^verbatim>\<open>deletedAt\<close>
  is set; in every other case, and for every other operation, the handler throws nothing and
  returns the result: as it is, as \<^verbatim>\<open>{ count: result }\<close> for \<^verbatim>\<open>count\<close>, and, when
  responses are wrapped, as the \<^verbatim>\<open>data\<close> of
  \<^verbatim>\<open>{ success: true, data, meta: { timestamp, operation } }\<close>.
\<close>

theorem not_found_policy:
  "(prismaCall baseOp mName cfg m (now e) input = Inl err \<longrightarrow>
      generateHandlerCode baseOp mName cfg m e input = Inl err
      \<and> (err = TypeError \<or> err = OutOfModel))
   \<and> (prismaCall baseOp mName cfg m (now e) input = Inr c \<and> prisma e c = Inl err \<longrightarrow>
        generateHandlerCode baseOp mName cfg m e input = Inl err)
   \<and> (prismaCall baseOp mName cfg m (now e) input = Inr c \<and> prisma e c = Inr result \<longrightarrow>
        generateHandlerCode baseOp mName cfg m e input =
          (if (baseOp = ''findUnique'' \<or> baseOp = ''findFirst'')
              \<and> (\<not> truthy result \<or> (hasDeletedAt m \<and> truthy (optProp result ''deletedAt'')))
           then Inl (notFound mName)
           else if wrapResponses cfg
           then Inr (JObj [(''success'', JBool True),
                           (''data'', if baseOp = ''count'' then JObj [(''count'', result)] else result),
                           (''meta'', JObj [(''timestamp'', JStr (nowISO e)),
                                            (''operation'', JStr baseOp)])])
           else Inr (if baseOp = ''count'' then JObj [(''count'', result)] else result)))"
proof (intro conjI impI)
  assume a: "prismaCall baseOp mName cfg m (now e) input = Inl err"
  then show "generateHandlerCode baseOp mName cfg m e input = Inl err"
    by (simp add: generateHandlerCode_def)
  from a show "err = TypeError \<or> err = OutOfModel"
    by (rule prismaCall_error)
next
  assume "prismaCall baseOp mName cfg m (now e) input = Inr c \<and> prisma e c = Inl err"
  then show "generateHandlerCode baseOp mName cfg m e input = Inl err"
    by (simp add: generateHandlerCode_def)
next
  assume "prismaCall baseOp mName cfg m (now e) input = Inr c \<and> prisma e c = Inr result"
  then have "generateHandlerCode baseOp mName cfg m e input =
      (if (baseOp = ''findUnique'' \<or> baseOp = ''findFirst'') \<and> \<not> truthy result
       then Inl (notFound mName)
       else if (baseOp = ''findUnique'' \<or> baseOp = ''findFirst'') \<and> hasDeletedAt m
               \<and> truthy result \<and> truthy (optProp result ''deletedAt'')
       then Inl (notFound mName)
       else Inr (respond cfg (nowISO e) baseOp result))"
    by (simp add: generateHandlerCode_def softDeleteAware_iff)
  also have "\<dots> =
      (if (baseOp = ''findUnique'' \<or> baseOp = ''findFirst'')
          \<and> (\<not> truthy result \<or> (hasDeletedAt m \<and> truthy (optProp result ''deletedAt'')))
       then Inl (notFound mName)
       else if wrapResponses cfg
       then Inr (JObj [(''success'', JBool True),
                       (''data'', if baseOp = ''count'' then JObj [(''count'', result)] else result),
                       (''meta'', JObj [(''timestamp'', JStr (nowISO e)),
                                        (''operation'', JStr baseOp)])])
       else Inr (if baseOp = ''count'' then JObj [(''count'', result)] else result))"
    by (auto simp: respond_def createSuccessResponse_operation)
  finally show "generateHandlerCode baseOp mName cfg m e input =
          (if (baseOp = ''findUnique'' \<or> baseOp = ''findFirst'')
              \<and> (\<not> truthy result \<or> (hasDeletedAt m \<and> truthy (optProp result ''deletedAt'')))
           then Inl (notFound mName)
           else if wrapResponses cfg
           then Inr (JObj [(''success'', JBool True),
                           (''data'', if baseOp = ''count'' then JObj [(''count'', result)] else result),
                           (''meta'', JObj [(''timestamp'', JStr (nowISO e)),
                                            (''operation'', JStr baseOp)])])
           else Inr (if baseOp = ''count'' then JObj [(''count'', result)] else result))" .
qed

theorem not_found_policy_witness:
  "generateHandlerCode ''findUnique'' ''User'' defaultConfig userModel (answering JNull) byIdInput
     = Inl (notFound ''User'')
   \<and> generateHandlerCode ''updateMany'' ''User'' defaultConfig userModel (answering zeroRows) byIdInput
     = Inr zeroRows
   \<and> generateHandlerCode ''updateMany'' ''User'' wrappingConfig userModel (answering zeroRows) byIdInput
     = Inr (JObj [(''success'', JBool True), (''data'', zeroRows),
                  (''meta'', JObj [(''timestamp'', JStr ''2023-11-14T22:13:20.000Z''),
                                   (''operation'', JStr ''updateMany'')])])
   \<and> prismaCall ''create'' ''User'' defaultConfig userModel (now (answering JNull)) JUndefined
     = Inl TypeError
   \<and> generateHandlerCode ''create'' ''User'' defaultConfig userModel (answering JNull) JUndefined
     = Inl TypeError"
proof -
  have c1: "prismaCall ''findUnique'' ''User'' defaultConfig userModel (now (answering JNull)) byIdInput
      = Inr (mkCall ''user'' ''findUnique'' byIdInput)"
    by code_simp
  have c2: "prismaCall ''updateMany'' ''User'' defaultConfig userModel (now (answering zeroRows)) byIdInput
      = Inr (mkCall ''user'' ''updateMany'' (JObj [(''where'', JObj [(''id'', JStr ''p1'')]), (''data'', JUndefined)]))"
    by code_simp
  have c3: "prismaCall ''updateMany'' ''User'' wrappingConfig userModel (now (answering zeroRows)) byIdInput
      = Inr (mkCall ''user'' ''updateMany'' (JObj [(''where'', JObj [(''id'', JStr ''p1'')]), (''data'', JUndefined)]))"
    by code_simp
  have c4: "prismaCall ''create'' ''User'' defaultConfig userModel (now (answering JNull)) JUndefined
     = Inl TypeError"
    by code_simp
  have p: "\<And>r c. prisma (answering r) c = Inr r" by (simp add: answering_def)
  have s: "\<And>r. nowISO (answering r) = ''2023-11-14T22:13:20.000Z''" by (simp add: answering_def)
  have w: "\<not> wrapResponses defaultConfig" by (simp add: defaultConfig_def)
  have w': "wrapResponses wrappingConfig" by (simp add: wrappingConfig_def defaultConfig_def)
  from not_found_policy[of "''findUnique''" "''User''" defaultConfig userModel "answering JNull" byIdInput _ _ JNull]
       c1 p
  have g1: "generateHandlerCode ''findUnique'' ''User'' defaultConfig userModel (answering JNull) byIdInput
     = Inl (notFound ''User'')"
    by simp
  from not_found_policy[of "''updateMany''" "''User''" defaultConfig userModel "answering zeroRows" byIdInput _ _ zeroRows]
       c2 p w
  have g2: "generateHandlerCode ''updateMany'' ''User'' defaultConfig userModel (answering zeroRows) byIdInput
     = Inr zeroRows"
    by simp
  from not_found_policy[of "''updateMany''" "''User''" wrappingConfig userModel "answering zeroRows" byIdInput _ _ zeroRows]
       c3 p w' s
  have g3: "generateHandlerCode ''updateMany'' ''User'' wrappingConfig userModel (answering zeroRows) byIdInput
     = Inr (JObj [(''success'', JBool True), (''data'', zeroRows),
                  (''meta'', JObj [(''timestamp'', JStr ''2023-11-14T22:13:20.000Z''),
                                   (''operation'', JStr ''updateMany'')])])"
    by simp
  from not_found_policy[of "''create''" "''User''" defaultConfig userModel "answering JNull" JUndefined TypeError]
       c4
  have g4: "generateHandlerCode ''create'' ''User'' defaultConfig userModel (answering JNull) JUndefined
     = Inl TypeError"
    by simp
  from g1 g2 g3 c4 g4 show ?thesis by simp
qed

text \<open>
  C6 (as stated) fails: \<^verbatim>\<open>findFirst\<close> on a model with \<^verbatim>\<open>deletedAt\<close> throws
  \<^verbatim>\<open>NOT_FOUND\<close> although the lookup returned a record; \<^verbatim>\<open>count\<close> returns
  \<^verbatim>\<open>{ count: 0 }\<close>, not the \<^verbatim>\<open>0\<close> the client returned; and with wrapped responses
  \<^verbatim>\<open>deleteMany\<close> returns the envelope around the result.
\<close>

theorem not_found_policy_counterexample:
  "truthy deletedPost
   \<and> generateHandlerCode ''findFirst'' ''Post'' defaultConfig postModel (answering deletedPost) deletedOnlyInput
       = Inl (notFound ''Post'')
   \<and> generateHandlerCode ''count'' ''User'' defaultConfig userModel (answering (JNum 0)) (JObj [])
       = Inr (JObj [(''count'', JNum 0)])
   \<and> generateHandlerCode ''deleteMany'' ''User'' wrappingConfig userModel (answering zeroRows) byIdInput
       = Inr (JObj [(''success'', JBool True), (''data'', zeroRows),
                    (''meta'', JObj [(''timestamp'', JStr ''2023-11-14T22:13:20.000Z''),
                                     (''operation'', JStr ''deleteMany'')])])"
  by code_simp

section \<open>Properties: group-by and aggregate\<close>

lemma map_of_setKey:
  "map_of (setKey kvs k v) k' = (if k' = k then Some v else map_of kvs k')"
  by (induction kvs) auto

lemma map_of_copyIf:
  "map_of (copyIf input k a) k' =
     (if k' = k \<and> truthy (optProp input k) then Some (optProp input k) else map_of a k')"
  by (simp add: copyIf_def map_of_setKey)

lemma map_of_guarded_copyIf:
  "map_of (if c then copyIf input k a else a) k' =
     (if c \<and> k' = k \<and> truthy (optProp input k) then Some (optProp input k) else map_of a k')"
  by (simp add: map_of_copyIf)



lemma map_of_groupByKeys_other:
  "k \<notin> {''by'', ''where'', ''orderBy'', ''having''} \<Longrightarrow> map_of (groupByKeys input) k = None"
  by (simp add: groupByKeys_def Let_def map_of_copyIf map_of_setKey)

lemma map_of_groupByRest_take:
  "map_of (groupByRest aggs input a5) ''take'' = map_of a5 ''take''"
  by (simp add: groupByRest_def Let_def map_of_guarded_copyIf map_of_copyIf map_of_setKey)




lemma map_of_groupByRest_sum:
  "\<not> supportsSum aggs \<Longrightarrow> map_of (groupByRest aggs input a5) ''_sum'' = map_of a5 ''_sum''"
  by (simp add: groupByRest_def Let_def map_of_guarded_copyIf map_of_copyIf map_of_setKey)

lemma map_of_groupByRest_avg:
  "\<not> supportsAvg aggs \<Longrightarrow> map_of (groupByRest aggs input a5) ''_avg'' = map_of a5 ''_avg''"
  by (simp add: groupByRest_def Let_def map_of_guarded_copyIf map_of_copyIf map_of_setKey)

text \<open>What the \<^verbatim>\<open>take\<close> statement leaves in \<^verbatim>\<open>args\<close>.\<close>

lemma groupByArgs_number:
  "optProp input ''take'' = JNum n \<Longrightarrow>
   groupByArgs aggs input =
     Inr (JObj (groupByRest aggs input
            (if n \<noteq> 0 then setKey (groupByKeys input) ''take'' (JNum (min n 500))
             else groupByKeys input)))"
  by (simp add: groupByArgs_def mapResult_def)

lemma groupByArgs_falsy:
  "\<not> truthy (optProp input ''take'') \<Longrightarrow>
   groupByArgs aggs input = Inr (JObj (groupByRest aggs input (groupByKeys input)))"
  by (simp add: groupByArgs_def)

lemma groupByArgs_returns:
  assumes "numberOrFalsy (optProp input ''take'')"
  shows "\<exists>a5. groupByArgs aggs input = Inr (JObj (groupByRest aggs input a5))
           \<and> map_of a5 ''by'' = map_of (groupByKeys input) ''by''
           \<and> map_of a5 ''orderBy'' = map_of (groupByKeys input) ''orderBy''
           \<and> map_of a5 ''skip'' = None \<and> map_of a5 ''_sum'' = None \<and> map_of a5 ''_avg'' = None
           \<and> map_of a5 ''take'' =
               (if truthy (optProp input ''take'')
                then (case optProp input ''take'' of JNum n \<Rightarrow> Some (JNum (min n 500)) | _ \<Rightarrow> None)
                else None)"
proof (cases "truthy (optProp input ''take'')")
  case False
  then show ?thesis
    by (intro exI[of _ "groupByKeys input"])
       (simp add: groupByArgs_falsy map_of_groupByKeys_other)
next
  case True
  with assms obtain n where n: "optProp input ''take'' = JNum n"
    by (cases "optProp input ''take''") (simp_all add: numberOrFalsy_def)
  with True have "n \<noteq> 0" by simp
  with n True show ?thesis
    by (intro exI[of _ "setKey (groupByKeys input) ''take'' (JNum (min n 500))"])
       (simp add: groupByArgs_number map_of_setKey map_of_groupByKeys_other)
qed

lemma prismaCall_groupBy_plain:
  "\<not> hasDeletedAt m \<Longrightarrow>
   prismaCall ''groupBy'' mName cfg m t input =
     mapResult (mkCall (toLowerCase mName) ''groupBy'') (groupByArgs (getAvailableAggregations m) input)"
  by (simp add: prismaCall_def softDeleteAware_def)

lemma prismaCall_aggregate_plain:
  "\<not> hasDeletedAt m \<Longrightarrow>
   prismaCall ''aggregate'' mName cfg m t input =
     mapResult (mkCall (toLowerCase mName) ''aggregate'') (aggregateArgs input)"
  by (simp add: prismaCall_def softDeleteAware_def)





lemma getPrismaMethodName_reads:
  "baseOp \<in> set [''findMany'', ''findFirst'', ''count'', ''aggregate'', ''groupBy'', ''findUnique'']
   \<Longrightarrow> getPrismaMethodName baseOp = baseOp"
  by (auto simp: getPrismaMethodName_def lookupOr_def methodMap_def)

lemma prismaCall_passes_input:
  assumes "\<not> hasDeletedAt m" and "baseOp \<in> set [''findMany'', ''findFirst'', ''count'']"
  shows "prismaCall baseOp mName cfg m t input = Inr (mkCall (toLowerCase mName) baseOp input)"
proof -
  from assms(2) have m: "getPrismaMethodName baseOp = baseOp"
    by (intro getPrismaMethodName_reads) auto
  from assms(2) consider "baseOp = ''findMany''" | "baseOp = ''findFirst''" | "baseOp = ''count''"
    by auto
  then show ?thesis
  proof cases
    case 1
    with assms(1) m show ?thesis
      by (simp add: prismaCall_def softDeleteAware_def inputParam_def mapResult_def)
  next
    case 2
    with assms(1) m show ?thesis
      by (simp add: prismaCall_def softDeleteAware_def inputParam_def mapResult_def)
  next
    case 3
    with assms(1) m show ?thesis
      by (simp add: prismaCall_def softDeleteAware_def inputParam_def mapResult_def)
  qed
qed

text \<open>
  C10 (as amended). For a model without a \<^verbatim>\<open>deletedAt\<close> field, a group-by call with a
  non-zero \<^verbatim>\<open>take\<close> is made with \<^verbatim>\<open>take = min(take, 500)\<close>, whatever the
  configuration; \<^verbatim>\<open>findMany\<close>, \<^verbatim>\<open>findFirst\<close> and \<^verbatim>\<open>count\<close> pass their input on
  unchanged, \<^verbatim>\<open>take\<close> included.
\<close>

theorem groupBy_take_capped:
  assumes "\<not> hasDeletedAt m"
  shows "(optProp input ''take'' = JNum n \<and> n \<noteq> 0 \<longrightarrow>
            (\<exists>a. prismaCall ''groupBy'' mName cfg m t input = Inr (mkCall (toLowerCase mName) ''groupBy'' a)
               \<and> optProp a ''take'' = JNum (min n 500)))
         \<and> (baseOp \<in> set [''findMany'', ''findFirst'', ''count''] \<longrightarrow>
              prismaCall baseOp mName cfg m t input = Inr (mkCall (toLowerCase mName) baseOp input))"
proof (intro conjI impI)
  assume a: "optProp input ''take'' = JNum n \<and> n \<noteq> 0"
  let ?aggs = "getAvailableAggregations m"
  let ?a = "JObj (groupByRest ?aggs input (setKey (groupByKeys input) ''take'' (JNum (min n 500))))"
  from a have "groupByArgs ?aggs input = Inr ?a"
    by (simp add: groupByArgs_number)
  then have "prismaCall ''groupBy'' mName cfg m t input = Inr (mkCall (toLowerCase mName) ''groupBy'' ?a)"
    by (simp add: prismaCall_groupBy_plain[OF assms] mapResult_def)
  moreover have "optProp ?a ''take'' = JNum (min n 500)"
    by (simp add: map_of_groupByRest_take map_of_setKey)
  ultimately show "\<exists>a. prismaCall ''groupBy'' mName cfg m t input = Inr (mkCall (toLowerCase mName) ''groupBy'' a)
               \<and> optProp a ''take'' = JNum (min n 500)"
    by blast
next
  assume "baseOp \<in> set [''findMany'', ''findFirst'', ''count'']"
  with assms show "prismaCall baseOp mName cfg m t input = Inr (mkCall (toLowerCase mName) baseOp input)"
    by (rule prismaCall_passes_input)
qed

theorem groupBy_take_capped_witness:
  "\<not> hasDeletedAt userModel
   \<and> optProp byNameTakeThousand ''take'' = JNum 1000
   \<and> prismaCall ''groupBy'' ''User'' defaultConfig userModel 0 byNameTakeThousand
       = Inr (mkCall ''user'' ''groupBy''
               (JObj [(''by'', JArr [JStr ''name'']), (''take'', JNum 500), (''orderBy'', idAscending)]))
   \<and> prismaCall ''findMany'' ''User'' defaultConfig userModel 0 byNameTakeThousand
       = Inr (mkCall ''user'' ''findMany'' byNameTakeThousand)"
proof -
  have h1: "\<not> hasDeletedAt userModel" by code_simp
  have h2: "optProp byNameTakeThousand ''take'' = JNum 1000" by code_simp
  have h3: "prismaCall ''groupBy'' ''User'' defaultConfig userModel 0 byNameTakeThousand
       = Inr (mkCall ''user'' ''groupBy''
               (JObj [(''by'', JArr [JStr ''name'']), (''take'', JNum 500), (''orderBy'', idAscending)]))"
    by code_simp
  have h4: "toLowerCase ''User'' = ''user''" by code_simp
  from groupBy_take_capped[OF h1, of byNameTakeThousand 1000 "''User''" defaultConfig 0 "''findMany''"]
  have "prismaCall ''findMany'' ''User'' defaultConfig userModel 0 byNameTakeThousand
       = Inr (mkCall ''user'' ''findMany'' byNameTakeThousand)"
    by (simp add: h4)
  with h1 h2 h3 show ?thesis by blast
qed

text \<open>
  C10 (as stated) fails: for a model with a \<^verbatim>\<open>deletedAt\<close> field \<^verbatim>\<open>take: 1000\<close>
  reaches the call uncapped, and \<^verbatim>\<open>take: 0\<close> reaches no call at all.
\<close>

theorem groupBy_take_capped_counterexample:
  "prismaCall ''groupBy'' ''Post'' defaultConfig postModel 0 byNameTakeThousand
     = Inr (mkCall ''post'' ''groupBy''
             (JObj [(''by'', JArr [JStr ''name'']), (''take'', JNum 1000),
                    (''where'', JObj [(''deletedAt'', JNull)])]))
   \<and> (case prismaCall ''groupBy'' ''User'' defaultConfig userModel 0 byNameTakeZero of
         Inl err \<Rightarrow> False
       | Inr c \<Rightarrow> optProp (callArgs c) ''take'' = JUndefined \<and> min 0 500 = (0 :: int))"
  by code_simp

lemma supportsSum_numericFieldsOf:
  "supportsSum (getAvailableAggregations m) = (numericFieldsOf m \<noteq> [])"
  "supportsAvg (getAvailableAggregations m) = (numericFieldsOf m \<noteq> [])"
  by (simp_all add: getAvailableAggregations_def numericFieldsOf_def Let_def)

lemma aggregateArgs_object:
  "aggregateArgs (JObj kvs) =
     Inr (JObj (if selectsNothing (JObj kvs) then setKey kvs ''_count'' countAll else kvs))"
  by (simp add: aggregateArgs_def selectsNothing_def countAll_def)

lemma aggregateArgs_nullish:
  "nullish input \<Longrightarrow> aggregateArgs input = Inr (JObj [(''_count'', countAll)])"
  by (cases input) (simp_all add: aggregateArgs_def countAll_def)

text \<open>
  C9 (as amended). For a model without a \<^verbatim>\<open>deletedAt\<close> field: if it has no non-list
  numeric field, the group-by call carries neither \<^verbatim>\<open>_sum\<close> nor \<^verbatim>\<open>_avg\<close>; the
  aggregate call carries every key of the input as it came, \<^verbatim>\<open>_sum\<close> and \<^verbatim>\<open>_avg\<close>
  included, and gets \<^verbatim>\<open>_count: { _all: true }\<close> when none of the five sub-fields is
  selected or there is no input at all.
\<close>

theorem aggregation_selection:
  assumes "\<not> hasDeletedAt m"
  shows "(numericFieldsOf m = [] \<and> numberOrFalsy (optProp input ''take'') \<longrightarrow>
            (\<exists>a. prismaCall ''groupBy'' mName cfg m t input
                    = Inr (mkCall (toLowerCase mName) ''groupBy'' (JObj a))
               \<and> map_of a ''_sum'' = None \<and> map_of a ''_avg'' = None))
         \<and> (\<exists>a. prismaCall ''aggregate'' mName cfg m t (JObj kvs)
                    = Inr (mkCall (toLowerCase mName) ''aggregate'' (JObj a))
               \<and> (\<forall>k. k \<noteq> ''_count'' \<longrightarrow> map_of a k = map_of kvs k)
               \<and> (selectsNothing (JObj kvs) \<longrightarrow> map_of a ''_count'' = Some countAll)
               \<and> (\<not> selectsNothing (JObj kvs) \<longrightarrow> a = kvs))
         \<and> (nullish input \<longrightarrow>
               prismaCall ''aggregate'' mName cfg m t input
                 = Inr (mkCall (toLowerCase mName) ''aggregate'' (JObj [(''_count'', countAll)])))"
proof (intro conjI impI)
  assume a: "numericFieldsOf m = [] \<and> numberOrFalsy (optProp input ''take'')"
  let ?aggs = "getAvailableAggregations m"
  from a have ns: "\<not> supportsSum ?aggs" and na: "\<not> supportsAvg ?aggs"
    by (simp_all add: supportsSum_numericFieldsOf)
  from a groupByArgs_returns[of input ?aggs] obtain a5 where
    r: "groupByArgs ?aggs input = Inr (JObj (groupByRest ?aggs input a5))"
    and s5: "map_of a5 ''_sum'' = None" and v5: "map_of a5 ''_avg'' = None"
    by blast
  have "prismaCall ''groupBy'' mName cfg m t input
      = Inr (mkCall (toLowerCase mName) ''groupBy'' (JObj (groupByRest ?aggs input a5)))"
    by (simp add: prismaCall_groupBy_plain[OF assms] r mapResult_def)
  moreover have "map_of (groupByRest ?aggs input a5) ''_sum'' = None"
    by (simp add: map_of_groupByRest_sum[OF ns] s5)
  moreover have "map_of (groupByRest ?aggs input a5) ''_avg'' = None"
    by (simp add: map_of_groupByRest_avg[OF na] v5)
  ultimately show "\<exists>a. prismaCall ''groupBy'' mName cfg m t input
                    = Inr (mkCall (toLowerCase mName) ''groupBy'' (JObj a))
               \<and> map_of a ''_sum'' = None \<and> map_of a ''_avg'' = None"
    by blast
next
  let ?a = "if selectsNothing (JObj kvs) then setKey kvs ''_count'' countAll else kvs"
  have "prismaCall ''aggregate'' mName cfg m t (JObj kvs)
      = Inr (mkCall (toLowerCase mName) ''aggregate'' (JObj ?a))"
    by (simp add: prismaCall_aggregate_plain[OF assms] aggregateArgs_object mapResult_def)
  moreover have "\<forall>k. k \<noteq> ''_count'' \<longrightarrow> map_of ?a k = map_of kvs k"
    by (simp add: map_of_setKey)
  moreover have "selectsNothing (JObj kvs) \<longrightarrow> map_of ?a ''_count'' = Some countAll"
    by (simp add: map_of_setKey)
  moreover have "\<not> selectsNothing (JObj kvs) \<longrightarrow> ?a = kvs"
    by simp
  ultimately show "\<exists>a. prismaCall ''aggregate'' mName cfg m t (JObj kvs)
                    = Inr (mkCall (toLowerCase mName) ''aggregate'' (JObj a))
               \<and> (\<forall>k. k \<noteq> ''_count'' \<longrightarrow> map_of a k = map_of kvs k)
               \<and> (selectsNothing (JObj kvs) \<longrightarrow> map_of a ''_count'' = Some countAll)
               \<and> (\<not> selectsNothing (JObj kvs) \<longrightarrow> a = kvs)"
    by blast
next
  assume "nullish input"
  then show "prismaCall ''aggregate'' mName cfg m t input
                 = Inr (mkCall (toLowerCase mName) ''aggregate'' (JObj [(''_count'', countAll)]))"
    by (simp add: prismaCall_aggregate_plain[OF assms] aggregateArgs_nullish mapResult_def)
qed

theorem aggregation_selection_witness:
  "\<not> hasDeletedAt userModel
   \<and> numericFieldsOf userModel = []
   \<and> numberOrFalsy (optProp groupBySumOfAge ''take'')
   \<and> prismaCall ''groupBy'' ''User'' defaultConfig userModel 0 groupBySumOfAge
       = Inr (mkCall ''user'' ''groupBy'' (JObj [(''by'', JArr [JStr ''name''])]))
   \<and> selectsNothing (JObj [])
   \<and> prismaCall ''aggregate'' ''User'' defaultConfig userModel 0 (JObj [])
       = Inr (mkCall ''user'' ''aggregate'' (JObj [(''_count'', countAll)]))"
proof -
  have h1: "\<not> hasDeletedAt userModel" by code_simp
  have h2: "numericFieldsOf userModel = []" by code_simp
  have h3: "numberOrFalsy (optProp groupBySumOfAge ''take'')" by code_simp
  have h4: "prismaCall ''groupBy'' ''User'' defaultConfig userModel 0 groupBySumOfAge
       = Inr (mkCall ''user'' ''groupBy'' (JObj [(''by'', JArr [JStr ''name''])]))"
    by code_simp
  have h5: "selectsNothing (JObj [])" by code_simp
  have h6: "prismaCall ''aggregate'' ''User'' defaultConfig userModel 0 (JObj [])
       = Inr (mkCall ''user'' ''aggregate'' (JObj [(''_count'', countAll)]))"
    by code_simp
  from aggregation_selection[OF h1, of groupBySumOfAge "''User''" defaultConfig 0 "[]"]
       h1 h2 h3 h4 h5 h6
  show ?thesis by blast
qed

text \<open>
  C9 (as stated) fails: \<^verbatim>\<open>User\<close> has no numeric field, and an aggregate call with
  \<^verbatim>\<open>_sum\<close> is made with \<^verbatim>\<open>_sum\<close>; for \<^verbatim>\<open>Post\<close>, which has a \<^verbatim>\<open>deletedAt\<close> field
  and no numeric field either, an aggregate call that selects nothing gets no \<^verbatim>\<open>_count\<close>
  and a group-by call keeps its \<^verbatim>\<open>_sum\<close>.
\<close>

theorem aggregation_selection_counterexample:
  "numericFieldsOf userModel = []
   \<and> prismaCall ''aggregate'' ''User'' defaultConfig userModel 0 sumOfAge
       = Inr (mkCall ''user'' ''aggregate'' sumOfAge)
   \<and> numericFieldsOf postModel = []
   \<and> prismaCall ''aggregate'' ''Post'' defaultConfig postModel 0 (JObj [])
       = Inr (mkCall ''post'' ''aggregate'' (JObj [(''where'', JObj [(''deletedAt'', JNull)])]))
   \<and> prismaCall ''groupBy'' ''Post'' defaultConfig postModel 0 groupBySumOfAge
       = Inr (mkCall ''post'' ''groupBy''
               (JObj [(''by'', JArr [JStr ''name'']), (''_sum'', JObj [(''age'', JBool True)]),
                      (''where'', JObj [(''deletedAt'', JNull)])]))"
  by code_simp


section \<open>Properties: soft delete\<close>

lemma hasSoftDeleteField_hasDeletedAt: "hasSoftDeleteField m \<Longrightarrow> hasDeletedAt m"
  by (auto simp: hasSoftDeleteField_def hasDeletedAt_def list_ex_iff)

text \<open>The filter on an input object whose \<^verbatim>\<open>where\<close> is absent, null or an object.\<close>

lemma softDeleteArgs_plain:
  assumes "plainWhere (optProp (JObj kvs) ''where'')"
  shows "\<exists>a. softDeleteArgs (JObj kvs) = Inr (JObj a)
     \<and> optProp (optProp (JObj a) ''where'') ''deletedAt'' =
         (if optProp (optProp (JObj kvs) ''where'') ''deletedAt'' = JUndefined then JNull
          else optProp (optProp (JObj kvs) ''where'') ''deletedAt'')
     \<and> (\<forall>k. k \<noteq> ''where'' \<longrightarrow> map_of a k = map_of kvs k)
     \<and> (\<forall>k. k \<noteq> ''deletedAt'' \<longrightarrow>
           optProp (optProp (JObj a) ''where'') k = optProp (optProp (JObj kvs) ''where'') k)"
proof (cases "nullish (optProp (JObj kvs) ''where'')")
  case True
  let ?a = "setKey (setKey kvs ''where'' (JObj [])) ''where'' (JObj [(''deletedAt'', JNull)])"
  from True have w: "optProp (JObj kvs) ''where'' = JUndefined \<or> optProp (JObj kvs) ''where'' = JNull"
    by (cases "optProp (JObj kvs) ''where''") simp_all
  then have "softDeleteArgs (JObj kvs) = Inr (JObj ?a)"
    by (auto simp: softDeleteArgs_def Let_def simp del: optProp.simps)
       (simp_all add: map_of_setKey)
  moreover have "optProp (JObj ?a) ''where'' = JObj [(''deletedAt'', JNull)]"
    by (simp add: map_of_setKey)
  moreover have "\<forall>k. k \<noteq> ''where'' \<longrightarrow> map_of ?a k = map_of kvs k"
    by (simp add: map_of_setKey)
  ultimately show ?thesis using w
    by (intro exI[of _ ?a]) auto
next
  case False
  with assms obtain wk where wk: "optProp (JObj kvs) ''where'' = JObj wk"
    by (cases "optProp (JObj kvs) ''where''") (simp_all add: plainWhere_def)
  show ?thesis
  proof (cases "optProp (JObj wk) ''deletedAt'' = JUndefined")
    case True
    let ?a = "setKey kvs ''where'' (JObj (setKey wk ''deletedAt'' JNull))"
    from wk True have "softDeleteArgs (JObj kvs) = Inr (JObj ?a)"
      by (simp add: softDeleteArgs_def Let_def del: optProp.simps)
    moreover have "optProp (JObj ?a) ''where'' = JObj (setKey wk ''deletedAt'' JNull)"
      by (simp add: map_of_setKey)
    moreover have "\<forall>k. k \<noteq> ''where'' \<longrightarrow> map_of ?a k = map_of kvs k"
      by (simp add: map_of_setKey)
    ultimately show ?thesis using wk True
      by (intro exI[of _ ?a]) (simp add: map_of_setKey)
  next
    case False
    with wk have "softDeleteArgs (JObj kvs) = Inr (JObj kvs)"
      by (simp add: softDeleteArgs_def Let_def del: optProp.simps)
    with wk False show ?thesis
      by (intro exI[of _ kvs]) simp
  qed
qed

lemma softDeleteArgs_nullish:
  "nullish input \<Longrightarrow> softDeleteArgs input = Inr (JObj [(''where'', JObj [(''deletedAt'', JNull)])])"
  by (cases input) (simp_all add: softDeleteArgs_def)

lemma prismaCall_soft_read:
  assumes "hasDeletedAt m"
    and "baseOp \<in> set [''findMany'', ''findFirst'', ''count'', ''aggregate'', ''groupBy'', ''findUnique'']"
  shows "prismaCall baseOp mName cfg m t input =
           mapResult (mkCall (toLowerCase mName) baseOp) (softDeleteArgs input)"
proof (cases "baseOp = ''findUnique''")
  case True
  with assms(1) show ?thesis
    by (simp add: prismaCall_def softDeleteAware_def)
next
  case False
  with assms(2) have five: "baseOp \<in> set [''findFirst'', ''findMany'', ''count'', ''aggregate'', ''groupBy'']"
    by auto
  from assms(2) have "getPrismaMethodName baseOp = baseOp"
    by (rule getPrismaMethodName_reads)
  with assms(1) five show ?thesis
    by (simp add: prismaCall_def softDeleteAware_def del: set_simps)
qed

lemma prismaCall_soft_delete:
  assumes "hasDeletedAt m"
  shows "prismaCall ''delete'' mName cfg m t input =
           mapResult (mkCall (toLowerCase mName) ''update'') (softDeleteData t input)"
    and "prismaCall ''deleteMany'' mName cfg m t input =
           mapResult (mkCall (toLowerCase mName) ''updateMany'') (softDeleteData t input)"
  using assms by (simp_all add: prismaCall_def softDeleteAware_def)

text \<open>
  C5. For a model with a \<^verbatim>\<open>deletedAt\<close> field of type \<^verbatim>\<open>DateTime\<close> and soft deletes
  enabled: the reads \<^verbatim>\<open>findMany\<close>, \<^verbatim>\<open>findFirst\<close>, \<^verbatim>\<open>count\<close>, \<^verbatim>\<open>aggregate\<close>,
  \<^verbatim>\<open>groupBy\<close> and \<^verbatim>\<open>findUnique\<close> call their own method with \<^verbatim>\<open>where.deletedAt\<close> set to
  null unless the caller set it, everything else in the input unchanged (and with that
  filter alone when there is no input); \<^verbatim>\<open>findUnique\<close>
  throws \<^verbatim>\<open>NOT_FOUND\<close> for a record whose \<^verbatim>\<open>deletedAt\<close> holds a date; \<^verbatim>\<open>delete\<close> calls
  \<^verbatim>\<open>update\<close> and \<^verbatim>\<open>deleteMany\<close> calls \<^verbatim>\<open>updateMany\<close>, with the caller's \<^verbatim>\<open>where\<close>
  and \<^verbatim>\<open>data: { deletedAt: now }\<close>.
\<close>

theorem soft_delete_rewrite:
  assumes "hasSoftDeleteField m" and "enableSoftDeletes cfg"
  shows "(baseOp \<in> set [''findMany'', ''findFirst'', ''count'', ''aggregate'', ''groupBy'', ''findUnique'']
            \<and> plainWhere (optProp (JObj kvs) ''where'') \<longrightarrow>
          (\<exists>a. prismaCall baseOp mName cfg m t (JObj kvs) = Inr (mkCall (toLowerCase mName) baseOp (JObj a))
             \<and> optProp (optProp (JObj a) ''where'') ''deletedAt'' =
                 (if optProp (optProp (JObj kvs) ''where'') ''deletedAt'' = JUndefined then JNull
                  else optProp (optProp (JObj kvs) ''where'') ''deletedAt'')
             \<and> (\<forall>k. k \<noteq> ''where'' \<longrightarrow> map_of a k = map_of kvs k)
             \<and> (\<forall>k. k \<noteq> ''deletedAt'' \<longrightarrow>
                   optProp (optProp (JObj a) ''where'') k = optProp (optProp (JObj kvs) ''where'') k)))
     \<and> (baseOp \<in> set [''findMany'', ''findFirst'', ''count'', ''aggregate'', ''groupBy'', ''findUnique'']
            \<and> nullish input \<longrightarrow>
          prismaCall baseOp mName cfg m t input =
            Inr (mkCall (toLowerCase mName) baseOp (JObj [(''where'', JObj [(''deletedAt'', JNull)])])))
     \<and> (prismaCall ''findUnique'' mName cfg m (now e) input = Inr c \<and> prisma e c = Inr r
            \<and> optProp r ''deletedAt'' = JDate d \<longrightarrow>
          generateHandlerCode ''findUnique'' mName cfg m e input = Inl (notFound mName))
     \<and> prismaCall ''delete'' mName cfg m t (JObj kvs) =
          Inr (mkCall (toLowerCase mName) ''update''
                (JObj [(''where'', optProp (JObj kvs) ''where''), (''data'', JObj [(''deletedAt'', JDate t)])]))
     \<and> prismaCall ''deleteMany'' mName cfg m t (JObj kvs) =
          Inr (mkCall (toLowerCase mName) ''updateMany''
                (JObj [(''where'', optProp (JObj kvs) ''where''), (''data'', JObj [(''deletedAt'', JDate t)])]))"
proof (intro conjI impI)
  from assms(1) have d: "hasDeletedAt m" by (rule hasSoftDeleteField_hasDeletedAt)
  {
    assume a: "baseOp \<in> set [''findMany'', ''findFirst'', ''count'', ''aggregate'', ''groupBy'', ''findUnique'']
            \<and> plainWhere (optProp (JObj kvs) ''where'')"
    then have call: "prismaCall baseOp mName cfg m t (JObj kvs) =
           mapResult (mkCall (toLowerCase mName) baseOp) (softDeleteArgs (JObj kvs))"
      using d by (intro prismaCall_soft_read) simp_all
    from a softDeleteArgs_plain[of kvs] obtain a' where
      "softDeleteArgs (JObj kvs) = Inr (JObj a')"
      "optProp (optProp (JObj a') ''where'') ''deletedAt'' =
         (if optProp (optProp (JObj kvs) ''where'') ''deletedAt'' = JUndefined then JNull
          else optProp (optProp (JObj kvs) ''where'') ''deletedAt'')"
      "\<forall>k. k \<noteq> ''where'' \<longrightarrow> map_of a' k = map_of kvs k"
      "\<forall>k. k \<noteq> ''deletedAt'' \<longrightarrow>
           optProp (optProp (JObj a') ''where'') k = optProp (optProp (JObj kvs) ''where'') k"
      by blast
    with call show "\<exists>a. prismaCall baseOp mName cfg m t (JObj kvs) = Inr (mkCall (toLowerCase mName) baseOp (JObj a))
             \<and> optProp (optProp (JObj a) ''where'') ''deletedAt'' =
                 (if optProp (optProp (JObj kvs) ''where'') ''deletedAt'' = JUndefined then JNull
                  else optProp (optProp (JObj kvs) ''where'') ''deletedAt'')
             \<and> (\<forall>k. k \<noteq> ''where'' \<longrightarrow> map_of a k = map_of kvs k)
             \<and> (\<forall>k. k \<noteq> ''deletedAt'' \<longrightarrow>
                   optProp (optProp (JObj a) ''where'') k = optProp (optProp (JObj kvs) ''where'') k)"
      by (intro exI[of _ a']) (simp add: mapResult_def)
  }
  {
    assume a: "baseOp \<in> set [''findMany'', ''findFirst'', ''count'', ''aggregate'', ''groupBy'', ''findUnique'']
            \<and> nullish input"
    then have call: "prismaCall baseOp mName cfg m t input =
           mapResult (mkCall (toLowerCase mName) baseOp) (softDeleteArgs input)"
      using d by (intro prismaCall_soft_read) simp_all
    from a have "softDeleteArgs input = Inr (JObj [(''where'', JObj [(''deletedAt'', JNull)])])"
      by (intro softDeleteArgs_nullish) simp
    with call show "prismaCall baseOp mName cfg m t input =
            Inr (mkCall (toLowerCase mName) baseOp (JObj [(''where'', JObj [(''deletedAt'', JNull)])]))"
      by (simp add: mapResult_def)
  }
  {
    assume a: "prismaCall ''findUnique'' mName cfg m (now e) input = Inr c \<and> prisma e c = Inr r
            \<and> optProp r ''deletedAt'' = JDate d"
    then have "truthy (optProp r ''deletedAt'')" by simp
    with a d show "generateHandlerCode ''findUnique'' mName cfg m e input = Inl (notFound mName)"
      by (simp add: generateHandlerCode_def softDeleteAware_def)
  }
  show "prismaCall ''delete'' mName cfg m t (JObj kvs) =
          Inr (mkCall (toLowerCase mName) ''update''
                (JObj [(''where'', optProp (JObj kvs) ''where''), (''data'', JObj [(''deletedAt'', JDate t)])]))"
    by (simp add: prismaCall_soft_delete[OF d] softDeleteData_def getProp_def mapResult_def
             del: optProp.simps)
  show "prismaCall ''deleteMany'' mName cfg m t (JObj kvs) =
          Inr (mkCall (toLowerCase mName) ''updateMany''
                (JObj [(''where'', optProp (JObj kvs) ''where''), (''data'', JObj [(''deletedAt'', JDate t)])]))"
    by (simp add: prismaCall_soft_delete[OF d] softDeleteData_def getProp_def mapResult_def
             del: optProp.simps)
qed

theorem soft_delete_rewrite_witness:
  "hasSoftDeleteField postModel
   \<and> enableSoftDeletes softDeleteConfig
   \<and> plainWhere (optProp titledInput ''where'')
   \<and> prismaCall ''findMany'' ''Post'' softDeleteConfig postModel 1700000000000 titledInput
       = Inr (mkCall ''post'' ''findMany''
               (JObj [(''where'', JObj [(''title'', JStr ''Hello''), (''deletedAt'', JNull)]),
                      (''take'', JNum 3)]))
   \<and> generateHandlerCode ''findUnique'' ''Post'' softDeleteConfig postModel (answering deletedPost) byIdInput
       = Inl (notFound ''Post'')
   \<and> prismaCall ''delete'' ''Post'' softDeleteConfig postModel 1700000000000 byIdInput
       = Inr (mkCall ''post'' ''update''
               (JObj [(''where'', JObj [(''id'', JStr ''p1'')]),
                      (''data'', JObj [(''deletedAt'', JDate 1700000000000)])]))"
proof -
  have h1: "hasSoftDeleteField postModel" by code_simp
  have h2: "enableSoftDeletes softDeleteConfig" by code_simp
  have h3: "plainWhere (optProp titledInput ''where'')" by code_simp
  have h4: "prismaCall ''findMany'' ''Post'' softDeleteConfig postModel 1700000000000 titledInput
       = Inr (mkCall ''post'' ''findMany''
               (JObj [(''where'', JObj [(''title'', JStr ''Hello''), (''deletedAt'', JNull)]),
                      (''take'', JNum 3)]))"
    by code_simp
  have h5: "generateHandlerCode ''findUnique'' ''Post'' softDeleteConfig postModel (answering deletedPost) byIdInput
       = Inl (notFound ''Post'')"
    by code_simp
  have lc: "toLowerCase ''Post'' = ''post''" by code_simp
  have w: "optProp byIdInput ''where'' = JObj [(''id'', JStr ''p1'')]" by code_simp
  from soft_delete_rewrite[OF h1 h2, of _ "[(''where'', JObj [(''id'', JStr ''p1'')])]" "''Post''" 1700000000000]
  have h6: "prismaCall ''delete'' ''Post'' softDeleteConfig postModel 1700000000000 byIdInput
       = Inr (mkCall ''post'' ''update''
               (JObj [(''where'', JObj [(''id'', JStr ''p1'')]),
                      (''data'', JObj [(''deletedAt'', JDate 1700000000000)])]))"
    by (simp add: lc byIdInput_def)
  from h1 h2 h3 h4 h5 h6 show ?thesis by blast
qed

end
